theory Spec2Isabelle
  imports Main
begin

section \<open>Go primitives used by the plugin\<close>

text \<open>
  Go strings and byte slices are modelled as \<^typ>\<open>string\<close> (a list of bytes), Go's
  \<open>int\<close> and \<open>int64\<close> as \<^typ>\<open>int\<close> with the 64-bit wrap-around written out where
  an operation can overflow. A Go \<open>map[string]T\<close> is an association list with pairwise
  distinct keys; the order of the list is the order in which a \<open>range\<close> loop visits the
  map, which Go leaves unspecified, so every statement below is made for every order.
\<close>

definition wrap64 :: "int \<Rightarrow> int" where
  "wrap64 x = (x + 2 ^ 63) mod 2 ^ 64 - 2 ^ 63"

text \<open>Go's integer division truncates towards zero.\<close>

definition quo :: "int \<Rightarrow> int \<Rightarrow> int" where
  "quo a b = (if (a < 0) = (b < 0) then \<bar>a\<bar> div \<bar>b\<bar> else - (\<bar>a\<bar> div \<bar>b\<bar>))"

text \<open>
  \<open>strings.ToLower\<close> on ASCII text: the bytes \<open>A\<close> to \<open>Z\<close> are moved to \<open>a\<close> to \<open>z\<close>,
  every other byte is kept. (HTTP header names and media types are ASCII.)
\<close>

definition toLowerByte :: "char \<Rightarrow> char" where
  "toLowerByte c =
     (let n = (of_char c :: nat) in if 65 \<le> n \<and> n \<le> 90 then char_of (n + 32) else c)"

definition ToLower :: "string \<Rightarrow> string" where
  "ToLower s = map toLowerByte s"

definition HasPrefix :: "string \<Rightarrow> string \<Rightarrow> bool" where
  "HasPrefix s p = (take (length p) s = p)"

definition TrimPrefix :: "string \<Rightarrow> string \<Rightarrow> string" where
  "TrimPrefix s p = (if HasPrefix s p then drop (length p) s else s)"

text \<open>\<open>strconv.Itoa\<close>, \<open>strconv.FormatInt(_, 10)\<close> and the verb \<open>%d\<close>.\<close>

definition digitChar :: "nat \<Rightarrow> char" where
  "digitChar d = char_of (48 + d)"

fun natDigits :: "nat \<Rightarrow> string" where
  "natDigits n = (if n < 10 then [digitChar n] else natDigits (n div 10) @ [digitChar (n mod 10)])"

declare natDigits.simps [simp del]

definition Itoa :: "int \<Rightarrow> string" where
  "Itoa i = (if i < 0 then CHR ''-'' # natDigits (nat (- i)) else natDigits (nat i))"

text \<open>
  \<open>strconv.Atoi\<close> on a 64-bit platform: an optional sign, then at least one decimal
  digit and nothing else; a value outside the \<open>int64\<close> range is an error.
\<close>

definition isDigit :: "char \<Rightarrow> bool" where
  "isDigit c = (48 \<le> (of_char c :: nat) \<and> (of_char c :: nat) \<le> 57)"

definition digitsValue :: "string \<Rightarrow> int" where
  "digitsValue ds = foldl (\<lambda>n c. n * 10 + (int (of_char c) - 48)) 0 ds"

definition Atoi :: "string \<Rightarrow> int option" where
  "Atoi s =
     (case s of
        [] \<Rightarrow> None
      | c # cs \<Rightarrow>
          (let neg = (c = CHR ''-'');
               ds = (if c = CHR ''-'' \<or> c = CHR ''+'' then cs else s)
           in if ds \<noteq> [] \<and> list_all isDigit ds
              then (let v = (if neg then - digitsValue ds else digitsValue ds)
                    in if - (2 ^ 63) \<le> v \<and> v < 2 ^ 63 then Some v else None)
              else None))"

section \<open>Header codec (headers.go)\<close>

text \<open>
  \<open>map[string][]string\<close> is the gateway's multi-valued header map, \<open>[]map[string]string\<close>
  the provider's wire form.
\<close>

type_synonym header_map = "(string \<times> string list) list"
type_synonym wire_entry = "(string \<times> string) list"
type_synonym wire_headers = "wire_entry list"

text \<open>Reading \<open>m[k]\<close>: a missing key yields the nil slice, which has no elements.\<close>

definition index :: "header_map \<Rightarrow> string \<Rightarrow> string list" where
  "index m k = (case map_of m k of None \<Rightarrow> [] | Some vs \<Rightarrow> vs)"

text \<open>The statement \<open>result[k] = append(result[k], v)\<close>.\<close>

fun appendValue :: "header_map \<Rightarrow> string \<Rightarrow> string \<Rightarrow> header_map" where
  "appendValue [] k v = [(k, [v])]"
| "appendValue ((k', vs) # m) k v =
     (if k' = k then (k', vs @ [v]) # m else (k', vs) # appendValue m k v)"

text \<open>
  \<open>FormatHeaders\<close> never fails: its error result is \<open>nil\<close> on every path, so the model
  returns the slice alone.
\<close>

definition FormatHeaders :: "header_map \<Rightarrow> wire_headers" where
  "FormatHeaders headers =
     (if length headers = 0 then []
      else foldl (\<lambda>result (name, values).
                    foldl (\<lambda>r v. r @ [[(ToLower name, v)]]) result values)
             [] headers)"

definition FlattenHeaders :: "wire_headers \<Rightarrow> header_map" where
  "FlattenHeaders headers =
     (if length headers = 0 then []
      else foldl (\<lambda>result entry.
                    foldl (\<lambda>r (name, value). appendValue r (ToLower name) value) result entry)
             [] headers)"

text \<open>The values of one wire entry, and of a whole wire array, that land on key \<open>k\<close>.\<close>

definition entryValues :: "string \<Rightarrow> wire_entry \<Rightarrow> string list" where
  "entryValues k entry = map snd (filter (\<lambda>(name, value). ToLower name = k) entry)"


text \<open>\<open>bytes.Split(body, []byte("\n"))\<close>: the pieces between line feeds, empty ones included.\<close>

fun splitLF :: "string \<Rightarrow> string list" where
  "splitLF [] = [[]]"
| "splitLF (c # cs) =
     (if c = CHR 0x0A then [] # splitLF cs
      else (case splitLF cs of [] \<Rightarrow> [[c]] | l # ls \<Rightarrow> (c # l) # ls))"

section \<open>Wire types and configuration (types.go, config.go)\<close>

text \<open>A \<open>json.RawMessage\<close>; \<open>None\<close> is the nil slice.\<close>

type_synonym RawMessage = "string option"

definition len_raw :: "RawMessage \<Rightarrow> nat" where
  "len_raw r = (case r of None \<Rightarrow> 0 | Some b \<Rightarrow> length b)"

text \<open>
  Go errors. The two typed errors of the plugin keep their fields; every other error is
  its message.
\<close>

datatype CircuitBreakerTrigger = TriggerNone | Trigger429 | Trigger5xx | TriggerTimeout

record CircuitBreakerOpenError =
  Trigger :: CircuitBreakerTrigger
  RetryAfterSec :: int
  RemainingMs :: int

record sidebandHTTPError =
  StatusCode :: int
  Body :: string
  Message :: string
  ID :: string

datatype error =
    Errorf string
  | CircuitOpen CircuitBreakerOpenError
  | SidebandHTTP sidebandHTTPError

record JWK =
  Kty :: string
  N :: string
  E :: string
  Crv :: string
  X :: string
  Y :: string
  X5C :: "string list"

record MCPContext =
  mcp_Method :: string
  mcp_ToolName :: string
  mcp_ToolArguments :: RawMessage
  mcp_ResourceURI :: string
  mcp_PromptName :: string
  mcp_JsonrpcID :: RawMessage

record JsonRPCRequest =
  rpc_Jsonrpc :: string
  rpc_Method :: string
  rpc_ID :: RawMessage
  rpc_Params :: RawMessage

record SidebandAccessRequest =
  req_SourceIP :: string
  req_SourcePort :: string
  req_Method :: string
  req_URL :: string
  req_Body :: string
  req_Headers :: wire_headers
  req_HTTPVersion :: string
  req_ClientCertificate :: "JWK option"
  req_TrafficType :: string
  req_MCP :: "MCPContext option"
  req_ExtractedHeaders :: "(string \<times> string) list"

record DenyResponse =
  deny_ResponseCode :: string
  deny_ResponseStatus :: string
  deny_Body :: string
  deny_Headers :: wire_headers

record SidebandAccessResponse =
  resp_SourceIP :: string
  resp_SourcePort :: string
  resp_Method :: string
  resp_URL :: string
  resp_Body :: "string option"
  resp_Headers :: wire_headers
  resp_ClientCertificate :: "JWK option"
  resp_State :: RawMessage
  resp_Response :: "DenyResponse option"

record SidebandResponsePayload =
  pl_Method :: string
  pl_URL :: string
  pl_Body :: string
  pl_ResponseCode :: string
  pl_ResponseStatus :: string
  pl_Headers :: wire_headers
  pl_HTTPVersion :: string
  pl_State :: RawMessage
  pl_Request :: "SidebandAccessRequest option"
  pl_TrafficType :: string
  pl_MCP :: "MCPContext option"

record SidebandResponseResult =
  res_ResponseCode :: string
  res_Body :: string
  res_Headers :: wire_headers
  res_Message :: string
  res_ID :: string

text \<open>The fields of \<open>url.URL\<close> that the plugin reads.\<close>

record URL =
  url_Scheme :: string
  url_Host :: string
  url_Path :: string
  url_RawQuery :: string

text \<open>The configuration fields read by the modelled functions.\<close>

record Config =
  FailOpen :: bool
  PassthroughStatusCodes :: "int list"
  MaxRetries :: int
  RetryBackoffMs :: int
  CircuitBreakerEnabled :: bool
  StripAcceptEncoding :: bool
  IncludeFullCertChain :: bool
  EnableMCP :: bool
  MCPJsonrpcErrors :: bool
  MaxSidebandBodyBytes :: int
  ExtractHeaders :: "string list"
  MCPRetryMethods :: "string list"

section \<open>Library functions taken as parameters\<close>

text \<open>
  The plugin calls Go's \<open>encoding/json\<close>, \<open>net/url\<close>, Unicode-aware trimming and the
  certificate converter. They are not part of the decision logic, so the model takes
  them as parameters: every theorem below holds for whatever these functions compute.
  A decoder returns \<open>None\<close> where the Go function returns an error.
\<close>

record stdlib =
  TrimSpace :: "string \<Rightarrow> string"
  json_Valid :: "string \<Rightarrow> bool"
  json_String :: "string \<Rightarrow> string"
  unmarshal_JsonRPCRequest :: "string \<Rightarrow> JsonRPCRequest option"
  unmarshal_probe :: "string \<Rightarrow> (string \<times> RawMessage) option"
  unmarshal_params :: "string \<Rightarrow> (string \<times> string) list option"
  unmarshal_string :: "string \<Rightarrow> string option"
  unmarshal_AccessRequest :: "string \<Rightarrow> SidebandAccessRequest option"
  unmarshal_MCPContext :: "string \<Rightarrow> MCPContext option"
  marshal_AccessRequest :: "SidebandAccessRequest \<Rightarrow> string option"
  url_Parse :: "string \<Rightarrow> URL option"
  ExtractClientCertJWK :: "string \<Rightarrow> bool \<Rightarrow> error + JWK"

section \<open>MCP module (mcp.go)\<close>

definition mcpMethods :: "string list" where
  "mcpMethods = [''tools/call'', ''tools/list'', ''resources/read'', ''resources/list'',
                 ''prompts/get'', ''prompts/list'', ''initialize'']"

definition IsMCPMethod :: "string \<Rightarrow> bool" where
  "IsMCPMethod method = (method \<in> set mcpMethods)"

definition extractMCPParams :: "stdlib \<Rightarrow> string \<Rightarrow> string \<Rightarrow> MCPContext \<Rightarrow> MCPContext" where
  "extractMCPParams L method params ctx =
     (case unmarshal_params L params of
        None \<Rightarrow> ctx
      | Some paramsMap \<Rightarrow>
          if method = ''tools/call'' then
            (let ctx1 = (case map_of paramsMap ''name'' of
                           None \<Rightarrow> ctx
                         | Some name \<Rightarrow>
                             (case unmarshal_string L name of
                                None \<Rightarrow> ctx
                              | Some toolName \<Rightarrow> ctx\<lparr>mcp_ToolName := toolName\<rparr>))
             in case map_of paramsMap ''arguments'' of
                  None \<Rightarrow> ctx1
                | Some args \<Rightarrow> ctx1\<lparr>mcp_ToolArguments := Some args\<rparr>)
          else if method = ''resources/read'' then
            (case map_of paramsMap ''uri'' of
               None \<Rightarrow> ctx
             | Some uri \<Rightarrow>
                 (case unmarshal_string L uri of
                    None \<Rightarrow> ctx
                  | Some resourceURI \<Rightarrow> ctx\<lparr>mcp_ResourceURI := resourceURI\<rparr>))
          else if method = ''prompts/get'' then
            (case map_of paramsMap ''name'' of
               None \<Rightarrow> ctx
             | Some name \<Rightarrow>
                 (case unmarshal_string L name of
                    None \<Rightarrow> ctx
                  | Some promptName \<Rightarrow> ctx\<lparr>mcp_PromptName := promptName\<rparr>))
          else ctx)"

definition ParseMCPRequest :: "stdlib \<Rightarrow> string \<Rightarrow> MCPContext option" where
  "ParseMCPRequest L body =
     (if length body = 0 then None
      else case unmarshal_JsonRPCRequest L body of
             None \<Rightarrow> None
           | Some rpc \<Rightarrow>
               if rpc_Jsonrpc rpc \<noteq> ''2.0'' then None
               else if \<not> IsMCPMethod (rpc_Method rpc) then None
               else (let ctx = \<lparr>mcp_Method = rpc_Method rpc, mcp_ToolName = [],
                                 mcp_ToolArguments = None, mcp_ResourceURI = [],
                                 mcp_PromptName = [], mcp_JsonrpcID = rpc_ID rpc\<rparr>
                     in case rpc_Params rpc of
                          None \<Rightarrow> Some ctx
                        | Some params \<Rightarrow>
                            if length params > 0
                            then Some (extractMCPParams L (rpc_Method rpc) params ctx)
                            else Some ctx))"

definition httpStatusToJsonRPCError :: "int \<Rightarrow> int" where
  "httpStatusToJsonRPCError statusCode =
     (if statusCode = 400 then - 32600
      else if statusCode = 401 \<or> statusCode = 403 then - 32600
      else if statusCode = 404 then - 32601
      else if statusCode = 429 then - 32000
      else if statusCode = 500 then - 32603
      else if statusCode = 502 \<or> statusCode = 503 then - 32000
      else if statusCode \<ge> 400 \<and> statusCode < 500 then - 32600
      else - 32603)"

text \<open>
  \<open>json.Marshal\<close> of a \<open>json.RawMessage\<close>. The nil message is written as \<open>null\<close>. Any
  other message is passed through the encoder's compaction with HTML escaping: the
  message must be valid JSON (else \<open>Marshal\<close> fails), white space outside string
  literals is dropped, each of the bytes \<open><\<close>, \<open>>\<close> and \<open>&\<close> becomes a backslash followed
  by \<open>u003c\<close>, \<open>u003e\<close> or \<open>u0026\<close>, and the UTF-8 forms of U+2028 and U+2029 become a
  backslash followed by \<open>u2028\<close> or \<open>u2029\<close>.
  \<open>appendCompact inStr esc skip\<close> walks the bytes; \<open>inStr\<close> and \<open>esc\<close> say whether the
  walk is inside a string literal and just after a backslash, \<open>skip\<close> counts the bytes of
  a replaced sequence that are still to be passed over.
\<close>

definition isJSONSpace :: "char \<Rightarrow> bool" where
  "isJSONSpace c = (c = CHR '' '' \<or> c = CHR 0x09 \<or> c = CHR 0x0D \<or> c = CHR 0x0A)"

fun appendCompact :: "bool \<Rightarrow> bool \<Rightarrow> nat \<Rightarrow> string \<Rightarrow> string" where
  "appendCompact inStr esc skip [] = []"
| "appendCompact inStr esc skip (c # cs) =
     (let inStr' = (if inStr then (if esc then True else c \<noteq> CHR 0x22) else c = CHR 0x22);
          esc' = (inStr \<and> \<not> esc \<and> c = CHR 0x5C)
      in if skip > 0 then appendCompact inStr' esc' (skip - 1) cs
         else if c = CHR ''<'' then CHR 0x5C # ''u003c'' @ appendCompact inStr' esc' 0 cs
         else if c = CHR ''>'' then CHR 0x5C # ''u003e'' @ appendCompact inStr' esc' 0 cs
         else if c = CHR ''&'' then CHR 0x5C # ''u0026'' @ appendCompact inStr' esc' 0 cs
         else if c = CHR 0xE2 \<and> take 2 cs = [CHR 0x80, CHR 0xA8]
           then CHR 0x5C # ''u2028'' @ appendCompact inStr' esc' 2 cs
         else if c = CHR 0xE2 \<and> take 2 cs = [CHR 0x80, CHR 0xA9]
           then CHR 0x5C # ''u2029'' @ appendCompact inStr' esc' 2 cs
         else if \<not> inStr \<and> isJSONSpace c then appendCompact inStr' esc' 0 cs
         else c # appendCompact inStr' esc' 0 cs)"

definition marshalRawMessage :: "stdlib \<Rightarrow> RawMessage \<Rightarrow> string option" where
  "marshalRawMessage L m =
     (case m of
        None \<Rightarrow> Some ''null''
      | Some b \<Rightarrow> if json_Valid L b then Some (appendCompact False False 0 b) else None)"

text \<open>
  \<open>formatMCPDenyResponse\<close> marshals the struct \<open>JsonRPCError\<close> and drops the error of
  \<open>json.Marshal\<close>, so a failed encoding leaves the nil body.
\<close>

definition formatMCPDenyResponse :: "stdlib \<Rightarrow> int \<Rightarrow> string \<Rightarrow> RawMessage \<Rightarrow> string" where
  \<open>formatMCPDenyResponse L statusCode message jsonrpcID =
     (let errCode = httpStatusToJsonRPCError statusCode
      in case marshalRawMessage L jsonrpcID of
           None \<Rightarrow> []
         | Some idBytes \<Rightarrow>
             ''{"jsonrpc":"2.0","id":'' @ idBytes @ '',"error":{"code":'' @ Itoa errCode
               @ '',"message":'' @ json_String L message @ ''}}'')\<close>

definition isMCPMethodRetryable :: "string \<Rightarrow> string list \<Rightarrow> bool" where
  "isMCPMethodRetryable method retryMethods = list_ex (\<lambda>m. m = method) retryMethods"

section \<open>SSE final-message extraction (sse.go)\<close>

definition isSSEContentType :: "stdlib \<Rightarrow> string \<Rightarrow> bool" where
  "isSSEContentType L contentType =
     HasPrefix (ToLower (TrimSpace L contentType)) ''text/event-stream''"

definition isJsonRPCResponse :: "stdlib \<Rightarrow> string \<Rightarrow> bool" where
  "isJsonRPCResponse L data =
     (case unmarshal_probe L data of
        None \<Rightarrow> False
      | Some (jsonrpc, ident) \<Rightarrow> jsonrpc = ''2.0'' \<and> len_raw ident > 0)"

text \<open>One turn of the loop over the lines; \<open>lastValidJSON\<close> is the candidate so far.\<close>

definition sseLine :: "stdlib \<Rightarrow> string option \<Rightarrow> string \<Rightarrow> string option" where
  "sseLine L lastValidJSON line0 =
     (let line = TrimSpace L line0
      in if \<not> HasPrefix line ''data:'' then lastValidJSON
         else (let data = TrimSpace L (TrimPrefix line ''data:'')
               in if length data = 0 then lastValidJSON
                  else if json_Valid L data \<and> isJsonRPCResponse L data then Some data
                  else lastValidJSON))"

definition ParseSSEFinalMessage :: "stdlib \<Rightarrow> string \<Rightarrow> string \<Rightarrow> string" where
  "ParseSSEFinalMessage L body contentType =
     (if \<not> isSSEContentType L contentType then body
      else if length body = 0 then body
      else (case foldl (sseLine L) None (splitLF body) of
              Some lastValidJSON \<Rightarrow> lastValidJSON
            | None \<Rightarrow> body))"

section \<open>Debug helpers (observability.go)\<close>

definition TruncateBody :: "string \<Rightarrow> int \<Rightarrow> string" where
  "TruncateBody body maxBytes =
     (if maxBytes \<le> 0 \<or> int (length body) \<le> maxBytes then body
      else take (nat maxBytes) body
             @ ''... [truncated, '' @ Itoa (int (length body)) @ '' bytes]'')"

section \<open>Circuit breaker (circuit_breaker.go)\<close>

text \<open>
  The breaker of one plugin instance. The mutex is not modelled: every operation is one
  atomic step on the record. Instants are nanoseconds on the monotonic clock, passed in
  where the code reads \<open>time.Now()\<close>; durations are \<open>int64\<close> nanoseconds.
\<close>

definition defaultRetryAfterSec :: int where
  "defaultRetryAfterSec = 30"

record CircuitBreaker =
  cb_enabled :: bool
  cb_closed :: bool
  cb_openedAt :: int
  cb_retryAfterSec :: int
  cb_triggerType :: CircuitBreakerTrigger

definition NewCircuitBreaker :: "bool \<Rightarrow> CircuitBreaker" where
  "NewCircuitBreaker en =
     \<lparr>cb_enabled = en, cb_closed = True, cb_openedAt = 0, cb_retryAfterSec = 0,
      cb_triggerType = TriggerNone\<rparr>"

definition Allow :: "CircuitBreaker \<Rightarrow> int \<Rightarrow> bool \<times> CircuitBreakerOpenError option \<times> CircuitBreaker" where
  "Allow cb now =
     (if \<not> cb_enabled cb then (True, None, cb)
      else if cb_closed cb then (True, None, cb)
      else (let elapsed = now - cb_openedAt cb;
                retryDuration = wrap64 (cb_retryAfterSec cb * 1000000000)
            in if elapsed \<ge> retryDuration
               then (True, None, cb\<lparr>cb_closed := True, cb_triggerType := TriggerNone\<rparr>)
               else (let remaining = retryDuration - elapsed
                     in (False,
                         Some \<lparr>Trigger = cb_triggerType cb,
                               RetryAfterSec = cb_retryAfterSec cb,
                               RemainingMs = quo remaining 1000000\<rparr>,
                         cb))))"

definition Trip :: "CircuitBreaker \<Rightarrow> CircuitBreakerTrigger \<Rightarrow> int \<Rightarrow> int \<Rightarrow> CircuitBreaker" where
  "Trip cb trigger retryAfterSec now =
     (if \<not> cb_enabled cb then cb
      else cb\<lparr>cb_closed := False, cb_openedAt := now, cb_triggerType := trigger,
              cb_retryAfterSec :=
                (if retryAfterSec > 0 then retryAfterSec else defaultRetryAfterSec)\<rparr>)"

definition Reset :: "CircuitBreaker \<Rightarrow> CircuitBreaker" where
  "Reset cb =
     (if \<not> cb_enabled cb then cb
      else cb\<lparr>cb_closed := True, cb_triggerType := TriggerNone\<rparr>)"

section \<open>Retry loop of the provider client (network.go)\<close>

text \<open>
  One call of \<open>doRequest\<close> either fails in transport or yields a status, the response
  headers (an \<open>http.Header\<close>, keys in canonical form) and the body. The network is a
  function from the attempt number to that outcome.
\<close>

datatype attempt_result = Failed error | Responded int header_map string

definition header_Get :: "header_map \<Rightarrow> string \<Rightarrow> string" where
  "header_Get h key = (case index h key of [] \<Rightarrow> [] | v # _ \<Rightarrow> v)"

definition parseRetryAfter :: "header_map \<Rightarrow> int" where
  "parseRetryAfter headers =
     (let val = header_Get headers ''Retry-After''
      in if val = [] then defaultRetryAfterSec
         else (case Atoi val of
                 None \<Rightarrow> defaultRetryAfterSec
               | Some secs \<Rightarrow> if secs \<le> 0 then defaultRetryAfterSec else secs))"

text \<open>
  What \<open>Execute\<close> returns, together with the breaker it leaves behind and the number of
  calls of \<open>doRequest\<close> it made.
\<close>

record exec_result =
  ex_status :: int
  ex_headers :: header_map
  ex_body :: string
  ex_err :: "error option"
  ex_cb :: CircuitBreaker
  ex_attempts :: nat

text \<open>The variables \<open>lastErr\<close>, \<open>lastStatus\<close>, \<open>lastHeaders\<close> and \<open>lastBody\<close>.\<close>

record last_attempt =
  lastErr :: "error option"
  lastStatus :: int
  lastHeaders :: header_map
  lastBody :: string

text \<open>
  The \<open>for\<close> loop with \<open>n\<close> turns left and \<open>attempt\<close> turns done, followed by the code
  after the loop. \<open>tripNow\<close> is the clock when the breaker is tripped. The pause between
  attempts changes no value and is left out.
\<close>

fun retryLoop ::
  "(nat \<Rightarrow> attempt_result) \<Rightarrow> int \<Rightarrow> CircuitBreaker \<Rightarrow> nat \<Rightarrow> nat \<Rightarrow> last_attempt \<Rightarrow> exec_result"
where
  "retryLoop doRequest tripNow cb 0 attempt prev =
     (let cb' = (if lastErr prev \<noteq> None
                 then (if lastStatus prev \<ge> 500
                       then Trip cb Trigger5xx defaultRetryAfterSec tripNow
                       else if lastStatus prev = 0
                       then Trip cb TriggerTimeout defaultRetryAfterSec tripNow
                       else cb)
                 else cb)
      in if lastStatus prev > 0
         then \<lparr>ex_status = lastStatus prev, ex_headers = lastHeaders prev,
               ex_body = lastBody prev, ex_err = lastErr prev, ex_cb = cb',
               ex_attempts = attempt\<rparr>
         else \<lparr>ex_status = 0, ex_headers = [], ex_body = [], ex_err = lastErr prev,
               ex_cb = cb', ex_attempts = attempt\<rparr>)"
| "retryLoop doRequest tripNow cb (Suc n) attempt prev =
     (case doRequest attempt of
        Failed err \<Rightarrow>
          retryLoop doRequest tripNow cb n (Suc attempt)
            \<lparr>lastErr = Some err, lastStatus = 0, lastHeaders = [], lastBody = []\<rparr>
      | Responded statusCode respHeaders respBody \<Rightarrow>
          if statusCode = 429
          then \<lparr>ex_status = statusCode, ex_headers = respHeaders, ex_body = respBody,
                ex_err = None,
                ex_cb = Trip cb Trigger429 (parseRetryAfter respHeaders) tripNow,
                ex_attempts = Suc attempt\<rparr>
          else if statusCode \<ge> 500
          then retryLoop doRequest tripNow cb n (Suc attempt)
                 \<lparr>lastErr = Some (Errorf (''sideband returned '' @ Itoa statusCode)),
                  lastStatus = statusCode, lastHeaders = respHeaders, lastBody = respBody\<rparr>
          else \<lparr>ex_status = statusCode, ex_headers = respHeaders, ex_body = respBody,
                ex_err = None, ex_cb = cb, ex_attempts = Suc attempt\<rparr>)"

text \<open>The outcomes after which the loop goes on: a transport failure or a status of 500 or more.\<close>

definition retried :: "attempt_result \<Rightarrow> bool" where
  "retried r = (case r of Failed err \<Rightarrow> True | Responded statusCode h b \<Rightarrow> statusCode \<ge> 500)"

text \<open>The variable \<open>maxAttempts\<close> of \<open>Execute\<close>: the number of turns its loop may take.\<close>

definition maxAttempts :: "Config \<Rightarrow> string \<Rightarrow> int" where
  "maxAttempts config mcpMethod =
     (if mcpMethod \<noteq> [] \<and> \<not> isMCPMethodRetryable mcpMethod (MCPRetryMethods config)
      then 1 else wrap64 (1 + MaxRetries config))"

definition Execute ::
  "Config \<Rightarrow> CircuitBreaker \<Rightarrow> (nat \<Rightarrow> attempt_result) \<Rightarrow> int \<Rightarrow> int \<Rightarrow> string \<Rightarrow> exec_result"
where
  "Execute config cb doRequest now tripNow mcpMethod =
     (case Allow cb now of
        (ok, cbErr, cb1) \<Rightarrow>
          if \<not> ok
          then \<lparr>ex_status = 0, ex_headers = [], ex_body = [],
                ex_err = map_option CircuitOpen cbErr, ex_cb = cb1, ex_attempts = 0\<rparr>
          else retryLoop doRequest tripNow cb1 (nat (maxAttempts config mcpMethod)) 0
                 \<lparr>lastErr = None, lastStatus = 0, lastHeaders = [], lastBody = []\<rparr>)"

section \<open>Gateway interface\<close>

text \<open>
  What the orchestrators read from the gateway's PDK during one request, as a snapshot:
  each read returns a value or an error. \<open>buildForwardedURL\<close> and \<open>getHTTPVersion\<close> only
  read the request and format the result, so the snapshot holds their results
  (\<open>getHTTPVersion\<close> never returns an error).
\<close>

record pdk =
  Client_GetIp :: "error + string"
  Client_GetPort :: "error + int"
  Request_GetMethod :: "error + string"
  buildForwardedURL :: "error + string"
  Request_GetRawBody :: "error + string"
  Request_GetHeaders :: "error + header_map"
  getHTTPVersion :: string
  getClientCertPEM :: "error + string"
  ServiceResponse_GetRawBody :: "error + string"
  ServiceResponse_GetStatus :: "error + int"
  ServiceResponse_GetHeaders :: "error + header_map"
  Ctx_GetSharedString :: "string \<Rightarrow> error + string"

text \<open>
  What the orchestrators do to the gateway: the calls on \<open>kong.ServiceRequest\<close> and
  \<open>kong.Response.Exit\<close>, in the order they are made. \<open>Exit\<close> carries the status, the body
  and the header map of the response sent to the client (nil body and nil map are empty).
\<close>

datatype kong_op =
    ClearHeader string
  | SetHeader string string
  | AddHeader string string
  | SetMethod string
  | SetPath string
  | SetRawQuery string
  | SetRawBody string
  | Exit int string header_map

definition errorString :: "error \<Rightarrow> string" where
  "errorString e =
     (case e of
        Errorf msg \<Rightarrow> msg
      | CircuitOpen c \<Rightarrow>
          ''circuit breaker open (trigger=''
            @ Itoa (case Trigger c of TriggerNone \<Rightarrow> 0 | Trigger429 \<Rightarrow> 1
                                    | Trigger5xx \<Rightarrow> 2 | TriggerTimeout \<Rightarrow> 3)
            @ ''), retry after '' @ Itoa (RetryAfterSec c) @ '' seconds''
      | SidebandHTTP h \<Rightarrow>
          ''sideband request failed with status '' @ Itoa (StatusCode h) @ '': '' @ Message h)"

text \<open>\<open>v, err := read; if err != nil { return nil, fmt.Errorf(prefix + "%w", err) }\<close>\<close>

definition orFail :: "error + 'a \<Rightarrow> string \<Rightarrow> ('a \<Rightarrow> error + 'b) \<Rightarrow> error + 'b" where
  "orFail r prefix k =
     (case r of Inl err \<Rightarrow> Inl (Errorf (prefix @ errorString err)) | Inr v \<Rightarrow> k v)"

text \<open>\<open>v, _ := read\<close>: on an error the PDK hands back the zero value.\<close>

definition orEmpty :: "error + string \<Rightarrow> string" where
  "orEmpty r = (case r of Inl err \<Rightarrow> [] | Inr v \<Rightarrow> v)"

text \<open>The assignment \<open>m[k] = v\<close>.\<close>

fun setKey :: "('k \<times> 'v) list \<Rightarrow> 'k \<Rightarrow> 'v \<Rightarrow> ('k \<times> 'v) list" where
  "setKey [] k v = [(k, v)]"
| "setKey ((k', v') # m) k v = (if k' = k then (k', v) # m else (k', v') # setKey m k v)"

section \<open>Access phase (access.go, with MCP support)\<close>

definition isPassthroughCode :: "int \<Rightarrow> Config \<Rightarrow> bool" where
  "isPassthroughCode code conf = list_ex (\<lambda>c. c = code) (PassthroughStatusCodes conf)"

definition stringSliceEqual :: "string list \<Rightarrow> string list \<Rightarrow> bool" where
  "stringSliceEqual a b =
     (if length a \<noteq> length b then False else list_all (\<lambda>(x, y). x = y) (zip a b))"

text \<open>The block \<open>MCP enrichment\<close> of \<open>composeAccessPayload\<close>.\<close>

definition mcpEnrichment ::
  "stdlib \<Rightarrow> Config \<Rightarrow> string \<Rightarrow> header_map \<Rightarrow> SidebandAccessRequest \<Rightarrow> SidebandAccessRequest"
where
  "mcpEnrichment L conf rawBody headers req =
     (if \<not> EnableMCP conf then req
      else (let req1 = (case ParseMCPRequest L rawBody of
                          None \<Rightarrow> req
                        | Some mcpCtx \<Rightarrow> req\<lparr>req_TrafficType := ''mcp'', req_MCP := Some mcpCtx\<rparr>)
            in if length (ExtractHeaders conf) > 0
               then (let extracted =
                       foldl (\<lambda>ext headerName.
                                (let lowerName = ToLower headerName
                                 in case map_of headers lowerName of
                                      None \<Rightarrow> ext
                                    | Some vals \<Rightarrow>
                                        (case vals of
                                           [] \<Rightarrow> ext
                                         | v # _ \<Rightarrow> setKey ext lowerName v)))
                             [] (ExtractHeaders conf)
                     in if length extracted > 0
                        then req1\<lparr>req_ExtractedHeaders := extracted\<rparr> else req1)
               else req1))"

text \<open>The block \<open>Payload size enforcement\<close> of \<open>composeAccessPayload\<close>.\<close>

definition payloadSizeEnforcement ::
  "stdlib \<Rightarrow> Config \<Rightarrow> SidebandAccessRequest \<Rightarrow> SidebandAccessRequest"
where
  "payloadSizeEnforcement L conf req =
     (if MaxSidebandBodyBytes conf > 0
      then (case marshal_AccessRequest L req of
              None \<Rightarrow> req
            | Some payloadBytes \<Rightarrow>
                if int (length payloadBytes) > MaxSidebandBodyBytes conf
                then req\<lparr>req_Body :=
                           TruncateBody (req_Body req) (quo (MaxSidebandBodyBytes conf) 2)\<rparr>
                else req)
      else req)"

definition composeAccessPayload :: "stdlib \<Rightarrow> pdk \<Rightarrow> Config \<Rightarrow> error + SidebandAccessRequest" where
  "composeAccessPayload L kong conf =
     orFail (Client_GetIp kong) ''failed to get client IP: '' (\<lambda>sourceIP.
     orFail (Client_GetPort kong) ''failed to get client port: '' (\<lambda>sourcePort.
     orFail (Request_GetMethod kong) ''failed to get method: '' (\<lambda>method.
     orFail (buildForwardedURL kong) ''failed to build URL: '' (\<lambda>reqURL.
     orFail (Request_GetRawBody kong) ''failed to get request body: '' (\<lambda>rawBody.
     orFail (Request_GetHeaders kong) ''failed to get headers: '' (\<lambda>headers.
       (let formattedHeaders = FormatHeaders headers;
            httpVersion = getHTTPVersion kong;
            req = \<lparr>req_SourceIP = sourceIP, req_SourcePort = Itoa sourcePort,
                   req_Method = method, req_URL = reqURL, req_Body = rawBody,
                   req_Headers = formattedHeaders, req_HTTPVersion = httpVersion,
                   req_ClientCertificate = None, req_TrafficType = [], req_MCP = None,
                   req_ExtractedHeaders = []\<rparr>;
            finish = (\<lambda>r. Inr (payloadSizeEnforcement L conf
                                   (mcpEnrichment L conf rawBody headers r)))
        in case getClientCertPEM kong of
             Inl err \<Rightarrow> finish req
           | Inr certPEM \<Rightarrow>
               if certPEM \<noteq> []
               then orFail (ExtractClientCertJWK L certPEM (IncludeFullCertChain conf))
                      ''failed to extract client certificate JWK: ''
                      (\<lambda>jwk. finish (req\<lparr>req_ClientCertificate := Some jwk\<rparr>))
               else finish req)))))))"

definition ensureValidJsonRPC :: "stdlib \<Rightarrow> string \<Rightarrow> MCPContext \<Rightarrow> string" where
  "ensureValidJsonRPC L body mcpCtx =
     (case unmarshal_JsonRPCRequest L body of
        None \<Rightarrow> body
      | Some rpc \<Rightarrow> if rpc_Jsonrpc rpc \<noteq> ''2.0'' then body else body)"

definition updateURL :: "stdlib \<Rightarrow> string \<Rightarrow> string \<Rightarrow> kong_op list" where
  "updateURL L newURL currentURL =
     (case url_Parse L newURL of
        None \<Rightarrow> []
      | Some newParsed \<Rightarrow>
          (case url_Parse L currentURL of
             None \<Rightarrow> []
           | Some currentParsed \<Rightarrow>
               (if url_Host newParsed \<noteq> url_Host currentParsed
                then [SetHeader ''Host'' (url_Host newParsed)] else [])
               @ (if url_Path newParsed \<noteq> url_Path currentParsed
                  then [SetPath (url_Path newParsed)] else [])
               @ (if url_RawQuery newParsed \<noteq> url_RawQuery currentParsed
                  then [SetRawQuery (url_RawQuery newParsed)] else [])))"

text \<open>
  \<open>updateRequest\<close>. The value lists of \<open>newFlat\<close> come from \<open>FlattenHeaders\<close> and are
  never empty, so \<open>values[0]\<close> exists; the model leaves an empty list without effect.
\<close>

definition headerRemovals :: "header_map \<Rightarrow> header_map \<Rightarrow> kong_op list" where
  "headerRemovals currentFlat newFlat =
     concat (map (\<lambda>(name, vals). if map_of newFlat name = None then [ClearHeader name] else [])
               currentFlat)"

definition headerUpdates :: "header_map \<Rightarrow> header_map \<Rightarrow> kong_op list" where
  "headerUpdates currentFlat newFlat =
     concat (map (\<lambda>(name, vals).
                    (let changed = (case map_of currentFlat name of
                                      None \<Rightarrow> True
                                    | Some currentValues \<Rightarrow>
                                        \<not> stringSliceEqual currentValues vals)
                     in if changed
                        then (case vals of
                                [] \<Rightarrow> []
                              | v # vs \<Rightarrow> SetHeader name v # map (AddHeader name) vs)
                        else []))
               newFlat)"

definition updateRequest ::
  "stdlib \<Rightarrow> pdk \<Rightarrow> Config \<Rightarrow> SidebandAccessResponse \<Rightarrow> SidebandAccessRequest \<Rightarrow> kong_op list"
where
  "updateRequest L kong conf resp payload =
     (case Request_GetHeaders kong of
        Inl err \<Rightarrow> []
      | Inr currentHeaders \<Rightarrow>
          (let currentFlat = foldl (\<lambda>m (name, vals). setKey m (ToLower name) vals) []
                               currentHeaders;
               newFlat = FlattenHeaders (resp_Headers resp)
           in headerRemovals currentFlat newFlat
              @ headerUpdates currentFlat newFlat
              @ (if StripAcceptEncoding conf then [ClearHeader ''Accept-Encoding''] else [])
              @ (if resp_Method resp \<noteq> []
                 then (let currentMethod = orEmpty (Request_GetMethod kong)
                       in if resp_Method resp \<noteq> currentMethod
                          then [SetMethod (resp_Method resp)] else [])
                 else [])
              @ (if resp_URL resp \<noteq> []
                 then (let currentURL = orEmpty (buildForwardedURL kong)
                       in if resp_URL resp \<noteq> currentURL
                          then updateURL L (resp_URL resp) currentURL else [])
                 else [])
              @ (case resp_Body resp of
                   None \<Rightarrow> []
                 | Some body \<Rightarrow>
                     (let currentBody = orEmpty (Request_GetRawBody kong)
                      in if body \<noteq> currentBody
                         then (let newBody =
                                 (case req_MCP payload of
                                    None \<Rightarrow> body
                                  | Some mcpCtx \<Rightarrow>
                                      if EnableMCP conf
                                      then ensureValidJsonRPC L body mcpCtx else body)
                               in [SetRawBody newBody])
                         else []))))"

text \<open>
  \<open>handleAccessResponse\<close> returns the calls it made on the gateway and its own result:
  the state, or the error that tells the caller the request was denied.
\<close>

definition handleAccessResponse ::
  "stdlib \<Rightarrow> pdk \<Rightarrow> Config \<Rightarrow> SidebandAccessResponse \<Rightarrow> SidebandAccessRequest
     \<Rightarrow> kong_op list \<times> (error + RawMessage)"
where
  "handleAccessResponse L kong conf resp payload =
     (case resp_Response resp of
        Some deny \<Rightarrow>
          (let statusCode = (case Atoi (deny_ResponseCode deny) of None \<Rightarrow> 403 | Some n \<Rightarrow> n);
               denied = Inl (Errorf (''request denied with status '' @ Itoa statusCode))
           in case (if MCPJsonrpcErrors conf then req_MCP payload else None) of
                Some mcpCtx \<Rightarrow>
                  ([Exit statusCode
                      (formatMCPDenyResponse L statusCode (deny_Body deny)
                         (mcp_JsonrpcID mcpCtx))
                      [(''Content-Type'', [''application/json''])]],
                   denied)
              | None \<Rightarrow>
                  ([Exit statusCode (deny_Body deny) (FlattenHeaders (deny_Headers deny))],
                   denied))
      | None \<Rightarrow> (updateRequest L kong conf resp payload, Inr (resp_State resp)))"

text \<open>The bodies that a trace of gateway calls installs with \<open>SetRawBody\<close>, in order.\<close>

fun installedBodies :: "kong_op list \<Rightarrow> string list" where
  "installedBodies [] = []"
| "installedBodies (SetRawBody b # ops) = b # installedBodies ops"
| "installedBodies (other # ops) = installedBodies ops"

text \<open>The number the specification names: the seconds left, rounded up, and at least 1.\<close>

definition ceilSeconds :: "int \<Rightarrow> int" where
  "ceilSeconds remainingMs = max 1 (- ((- remainingMs) div 1000))"

definition remainingSeconds :: "int \<Rightarrow> int" where
  "remainingSeconds remainingMs =
     (let remainingSec = quo (wrap64 (remainingMs + 999)) 1000
      in if remainingSec < 1 then 1 else remainingSec)"

definition handleCircuitBreakerError ::
  "stdlib \<Rightarrow> CircuitBreakerOpenError \<Rightarrow> Config \<Rightarrow> SidebandAccessRequest \<Rightarrow> kong_op list"
where
  \<open>handleCircuitBreakerError L cbErr conf payload =
     (if Trigger cbErr = Trigger429
      then (let remainingSec = remainingSeconds (RemainingMs cbErr)
            in case (if MCPJsonrpcErrors conf then req_MCP payload else None) of
                 Some mcpCtx \<Rightarrow>
                   (let msg = ''Service temporarily unavailable. Retry after ''
                                @ Itoa remainingSec @ '' seconds.''
                    in [Exit 429 (formatMCPDenyResponse L 429 msg (mcp_JsonrpcID mcpCtx))
                          [(''Content-Type'', [''application/json'']),
                           (''Retry-After'', [Itoa remainingSec])]])
               | None \<Rightarrow>
                   [Exit 429
                      (''{"code":"LIMIT_EXCEEDED","message":"The request exceeded the allowed rate limit. Please try after ''
                         @ Itoa remainingSec @ '' second."}'')
                      [(''Content-Type'', [''application/json'']),
                       (''Retry-After'', [Itoa remainingSec])]])
      else if FailOpen conf then []
      else (case (if MCPJsonrpcErrors conf then req_MCP payload else None) of
              Some mcpCtx \<Rightarrow>
                [Exit 502
                   (formatMCPDenyResponse L 502 ''Service temporarily unavailable.''
                      (mcp_JsonrpcID mcpCtx))
                   [(''Content-Type'', [''application/json''])]]
            | None \<Rightarrow> [Exit 502 [] []]))\<close>

section \<open>Response phase (response.go)\<close>

definition statusStrings :: "(int \<times> string) list" where
  "statusStrings =
     [(200, ''OK''), (400, ''BAD REQUEST''), (401, ''UNAUTHORIZED''), (404, ''NOT FOUND''),
      (413, ''PAYLOAD TOO LARGE''), (429, ''TOO MANY REQUESTS''),
      (500, ''INTERNAL SERVER ERROR''), (503, ''SERVICE UNAVAILABLE'')]"

definition preservedResponseHeaders :: "string \<Rightarrow> bool" where
  "preservedResponseHeaders name =
     (name \<in> set [''content-length'', ''date'', ''connection'', ''vary''])"

definition getStatusString :: "int \<Rightarrow> string" where
  "getStatusString code = (case map_of statusStrings code of Some s \<Rightarrow> s | None \<Rightarrow> [])"

text \<open>
  \<open>getResponseContentType\<close>: the first value of the first header, in iteration order,
  whose name matches \<open>content-type\<close> without regard to case and that has a value.
\<close>

fun getResponseContentType :: "header_map \<Rightarrow> string" where
  "getResponseContentType [] = []"
| "getResponseContentType ((name, vals) # headers) =
     (if ToLower name = ''content-type'' \<and> length vals > 0 then hd vals
      else getResponseContentType headers)"

definition composeResponsePayload ::
  "stdlib \<Rightarrow> pdk \<Rightarrow> Config \<Rightarrow> SidebandAccessRequest option \<Rightarrow> RawMessage
     \<Rightarrow> error + SidebandResponsePayload"
where
  "composeResponsePayload L kong conf originalRequest state =
     orFail (Request_GetMethod kong) ''failed to get method: '' (\<lambda>method.
     orFail (buildForwardedURL kong) ''failed to build URL: '' (\<lambda>reqURL.
     orFail (ServiceResponse_GetRawBody kong) ''failed to get response body: '' (\<lambda>responseBodyBytes.
     orFail (ServiceResponse_GetStatus kong) ''failed to get response status: '' (\<lambda>statusCode.
     orFail (ServiceResponse_GetHeaders kong) ''failed to get response headers: '' (\<lambda>responseHeaders.
       (let formattedHeaders = FormatHeaders responseHeaders;
            httpVersion = getHTTPVersion kong;
            contentType = getResponseContentType responseHeaders;
            responseBody =
              (if EnableMCP conf \<and> isSSEContentType L contentType
               then ParseSSEFinalMessage L responseBodyBytes contentType
               else responseBodyBytes);
            payload = \<lparr>pl_Method = method, pl_URL = reqURL, pl_Body = responseBody,
                       pl_ResponseCode = Itoa statusCode,
                       pl_ResponseStatus = getStatusString statusCode,
                       pl_Headers = formattedHeaders, pl_HTTPVersion = httpVersion,
                       pl_State = None, pl_Request = None, pl_TrafficType = [],
                       pl_MCP = None\<rparr>;
            payload1 = (if len_raw state > 0 then payload\<lparr>pl_State := state\<rparr>
                        else if originalRequest \<noteq> None
                        then payload\<lparr>pl_Request := originalRequest\<rparr>
                        else payload);
            payload2 =
              (if EnableMCP conf
               then (case ParseMCPRequest L responseBody of
                       Some mcpCtx \<Rightarrow>
                         payload1\<lparr>pl_TrafficType := ''mcp'', pl_MCP := Some mcpCtx\<rparr>
                     | None \<Rightarrow>
                         (case originalRequest of
                            None \<Rightarrow> payload1
                          | Some orig \<Rightarrow>
                              (case req_MCP orig of
                                 None \<Rightarrow> payload1
                               | Some mcpCtx \<Rightarrow>
                                   payload1\<lparr>pl_TrafficType := ''mcp'',
                                            pl_MCP := Some mcpCtx\<rparr>)))
               else payload1)
        in Inr payload2))))))"

text \<open>
  \<open>handleResponseResult\<close>. The loop over the upstream headers has three branches (a
  preserved header, a header that is in the policy response, a header that is not) and
  no branch changes anything; the fold keeps the header map that is handed to \<open>Exit\<close>.
\<close>

definition handleResponseResult ::
  "stdlib \<Rightarrow> pdk \<Rightarrow> Config \<Rightarrow> SidebandResponseResult \<Rightarrow> kong_op list"
where
  "handleResponseResult L kong conf result =
     (let statusCode = (case Atoi (res_ResponseCode result) of None \<Rightarrow> 200 | Some n \<Rightarrow> n);
          policyHeaders = FlattenHeaders (res_Headers result);
          exitHeaders =
            (case ServiceResponse_GetHeaders kong of
               Inl err \<Rightarrow> policyHeaders
             | Inr upstreamHeaders \<Rightarrow>
                 foldl (\<lambda>hdrs (name, vals).
                          (let lowerName = ToLower name
                           in if preservedResponseHeaders lowerName then hdrs
                              else if map_of policyHeaders lowerName = None then hdrs
                              else hdrs))
                       policyHeaders upstreamHeaders)
      in [Exit statusCode (res_Body result) exitHeaders])"

definition mcpContextKey :: string where
  "mcpContextKey = ''paz_mcp_context''"

definition zeroAccessRequest :: SidebandAccessRequest where
  "zeroAccessRequest =
     \<lparr>req_SourceIP = [], req_SourcePort = [], req_Method = [], req_URL = [], req_Body = [],
      req_Headers = [], req_HTTPVersion = [], req_ClientCertificate = None,
      req_TrafficType = [], req_MCP = None, req_ExtractedHeaders = []\<rparr>"

text \<open>
  \<open>loadPerRequestContext\<close> returns \<open>&req\<close>, the address of a local: the request it
  returns is never nil, which the model shows as \<open>Some\<close>.
\<close>

definition loadPerRequestContext ::
  "stdlib \<Rightarrow> pdk \<Rightarrow> error + (SidebandAccessRequest option \<times> RawMessage)"
where
  "loadPerRequestContext L kong =
     orFail (Ctx_GetSharedString kong ''paz_original_request'')
       ''failed to get original request from context: '' (\<lambda>reqStr.
       (let finish = (\<lambda>req.
              (let req1 = (case Ctx_GetSharedString kong mcpContextKey of
                             Inl err \<Rightarrow> req
                           | Inr mcpStr \<Rightarrow>
                               if mcpStr \<noteq> []
                               then (case unmarshal_MCPContext L mcpStr of
                                       None \<Rightarrow> req
                                     | Some mcpCtx \<Rightarrow>
                                         req\<lparr>req_MCP := Some mcpCtx, req_TrafficType := ''mcp''\<rparr>)
                               else req);
                   state = (case Ctx_GetSharedString kong ''paz_state'' of
                              Inl err \<Rightarrow> None
                            | Inr stateStr \<Rightarrow> if stateStr \<noteq> [] then Some stateStr else None)
               in Inr (Some req1, state)))
        in if reqStr \<noteq> []
           then (case unmarshal_AccessRequest L reqStr of
                   None \<Rightarrow> Inl (Errorf ''failed to unmarshal original request'')
                 | Some req \<Rightarrow> finish req)
           else finish zeroAccessRequest))"

definition handleCircuitBreakerErrorResponse ::
  "stdlib \<Rightarrow> CircuitBreakerOpenError \<Rightarrow> Config \<Rightarrow> SidebandAccessRequest option \<Rightarrow> kong_op list"
where
  \<open>handleCircuitBreakerErrorResponse L cbErr conf originalRequest =
     (let mcp = (if MCPJsonrpcErrors conf
                 then (case originalRequest of None \<Rightarrow> None | Some orig \<Rightarrow> req_MCP orig)
                 else None)
      in if Trigger cbErr = Trigger429
         then (let remainingSec = remainingSeconds (RemainingMs cbErr)
               in case mcp of
                    Some mcpCtx \<Rightarrow>
                      (let msg = ''Service temporarily unavailable. Retry after ''
                                   @ Itoa remainingSec @ '' seconds.''
                       in [Exit 429 (formatMCPDenyResponse L 429 msg (mcp_JsonrpcID mcpCtx))
                             [(''Content-Type'', [''application/json'']),
                              (''Retry-After'', [Itoa remainingSec])]])
                  | None \<Rightarrow>
                      [Exit 429
                         (''{"code":"LIMIT_EXCEEDED","message":"The request exceeded the allowed rate limit. Please try after ''
                            @ Itoa remainingSec @ '' second."}'')
                         [(''Content-Type'', [''application/json'']),
                          (''Retry-After'', [Itoa remainingSec])]])
         else if FailOpen conf then []
         else (case mcp of
                 Some mcpCtx \<Rightarrow>
                   [Exit 502
                      (formatMCPDenyResponse L 502 ''Service temporarily unavailable.''
                         (mcp_JsonrpcID mcpCtx))
                      [(''Content-Type'', [''application/json''])]]
               | None \<Rightarrow> [Exit 502 [] []]))\<close>

section \<open>SSE extraction as the specification words it\<close>

text \<open>
  Written from the specification, not from the code: split the body on LF, trim each
  line, keep the lines that begin with \<open>data:\<close>, strip that prefix and trim; of these
  payloads keep those that are valid JSON with \<open>jsonrpc\<close> equal to \<open>2.0\<close> and a nonempty
  \<open>id\<close>; return the last one, or the input when there is none or the content type does
  not begin with \<open>text/event-stream\<close>.
\<close>

definition ssePayloads :: "stdlib \<Rightarrow> string list \<Rightarrow> string list" where
  "ssePayloads L lines =
     map (\<lambda>line. TrimSpace L (drop 5 line))
       (filter (\<lambda>line. HasPrefix line ''data:'') (map (TrimSpace L) lines))"

definition sseResponses :: "stdlib \<Rightarrow> string list \<Rightarrow> string list" where
  "sseResponses L lines =
     filter (\<lambda>p. json_Valid L p \<and> isJsonRPCResponse L p) (ssePayloads L lines)"

definition sseFinalMessageSpec :: "stdlib \<Rightarrow> string \<Rightarrow> string \<Rightarrow> string" where
  "sseFinalMessageSpec L body contentType =
     (if \<not> HasPrefix (ToLower (TrimSpace L contentType)) ''text/event-stream'' then body
      else (case sseResponses L (splitLF body) of
              [] \<Rightarrow> body
            | p # ps \<Rightarrow> last (p # ps)))"

section \<open>Raw ids that the encoder leaves as they are\<close>

text \<open>
  Two forms of a raw JSON-RPC id that compaction with HTML escaping cannot change: text
  with none of \<open><\<close>, \<open>>\<close>, \<open>&\<close>, the byte \<open>0xE2\<close> (with which U+2028 and U+2029 begin) and no
  white space, which covers every integer; and a string literal whose content has none
  of \<open><\<close>, \<open>>\<close>, \<open>&\<close>, \<open>0xE2\<close>, no double quote and no backslash.
\<close>

definition htmlFree :: "string \<Rightarrow> bool" where
  "htmlFree s =
     list_all (\<lambda>c. c \<noteq> CHR ''<'' \<and> c \<noteq> CHR ''>'' \<and> c \<noteq> CHR ''&'' \<and> c \<noteq> CHR 0xE2) s"

definition plainToken :: "string \<Rightarrow> bool" where
  "plainToken s = (htmlFree s \<and> list_all (\<lambda>c. \<not> isJSONSpace c) s)"

definition plainContent :: "string \<Rightarrow> bool" where
  "plainContent s = (htmlFree s \<and> list_all (\<lambda>c. c \<noteq> CHR 0x22 \<and> c \<noteq> CHR 0x5C) s)"

definition stringLiteral :: "string \<Rightarrow> string" where
  "stringLiteral s = CHR 0x22 # s @ [CHR 0x22]"

section \<open>A sample instance of the library parameters\<close>

text \<open>
  For evaluating the model on examples: trimming of ASCII white space, a string encoder
  that is right for text without characters to escape, a validity test and decoders
  that know the few documents used in the examples, and an encoder that writes the
  mandatory fields of an access request.
\<close>

definition isAsciiSpace :: "char \<Rightarrow> bool" where
  "isAsciiSpace c =
     (c = CHR '' '' \<or> c = CHR 0x09 \<or> c = CHR 0x0A \<or> c = CHR 0x0B \<or> c = CHR 0x0C
      \<or> c = CHR 0x0D)"

definition asciiTrimSpace :: "string \<Rightarrow> string" where
  "asciiTrimSpace s = rev (dropWhile isAsciiSpace (rev (dropWhile isAsciiSpace s)))"

definition sampleNotification :: string where
  \<open>sampleNotification = ''{"jsonrpc":"2.0","method":"notifications/progress"}''\<close>

definition sampleResult :: string where
  \<open>sampleResult = ''{"jsonrpc":"2.0","id":7,"result":{}}''\<close>

fun sampleEntries :: "wire_headers \<Rightarrow> string" where
  \<open>sampleEntries [] = []\<close>
| \<open>sampleEntries (e # es) =
     (case e of [] \<Rightarrow> ''{}'' | (n, v) # _ \<Rightarrow> ''{'' @ stringLiteral n @ '':'' @ stringLiteral v @ ''}'')
     @ (if es = [] then [] else '','' @ sampleEntries es)\<close>

definition sampleHeaders :: "wire_headers \<Rightarrow> string" where
  "sampleHeaders hs = ''['' @ sampleEntries hs @ '']''"

definition sampleMarshal :: "SidebandAccessRequest \<Rightarrow> string option" where
  \<open>sampleMarshal r =
     Some (''{"source_ip":'' @ stringLiteral (req_SourceIP r)
           @ '',"source_port":'' @ stringLiteral (req_SourcePort r)
           @ '',"method":'' @ stringLiteral (req_Method r)
           @ '',"url":'' @ stringLiteral (req_URL r)
           @ '',"body":'' @ stringLiteral (req_Body r)
           @ '',"headers":'' @ sampleHeaders (req_Headers r)
           @ '',"http_version":'' @ stringLiteral (req_HTTPVersion r) @ ''}'')\<close>

definition sampleLib :: stdlib where
  \<open>sampleLib =
     \<lparr>TrimSpace = asciiTrimSpace,
      json_Valid = (\<lambda>s. s \<in> set [sampleNotification, sampleResult, ''7'', ''"a<b"'']),
      json_String = stringLiteral,
      unmarshal_JsonRPCRequest = (\<lambda>s. None),
      unmarshal_probe =
        map_of [(sampleNotification, (''2.0'', None)), (sampleResult, (''2.0'', Some ''7''))],
      unmarshal_params = (\<lambda>s. None),
      unmarshal_string = (\<lambda>s. None),
      unmarshal_AccessRequest = (\<lambda>s. None),
      unmarshal_MCPContext = (\<lambda>s. None),
      marshal_AccessRequest = sampleMarshal,
      url_Parse = (\<lambda>s. None),
      ExtractClientCertJWK = (\<lambda>pem full. Inl (Errorf ''no certificate''))\<rparr>\<close>

definition samplePdk :: pdk where
  "samplePdk =
     \<lparr>Client_GetIp = Inr ''10.0.0.1'',
      Client_GetPort = Inr 40000,
      Request_GetMethod = Inr ''POST'',
      buildForwardedURL = Inr ''https://svc:443/mcp'',
      Request_GetRawBody = Inr ''hello'',
      Request_GetHeaders = Inr [(''content-type'', [''application/json''])],
      getHTTPVersion = ''1.1'',
      getClientCertPEM = Inl (Errorf ''no variable''),
      ServiceResponse_GetRawBody = Inr ''{}'',
      ServiceResponse_GetStatus = Inr 200,
      ServiceResponse_GetHeaders = Inr [(''Date'', [''Mon, 02 Feb 2026 10:00:00 GMT'']),
                                        (''X-Upstream'', [''u1''])],
      Ctx_GetSharedString = (\<lambda>k. Inr [])\<rparr>"

definition sampleConfig :: Config where
  "sampleConfig =
     \<lparr>FailOpen = False, PassthroughStatusCodes = [413], MaxRetries = 3, RetryBackoffMs = 500,
      CircuitBreakerEnabled = True, StripAcceptEncoding = True, IncludeFullCertChain = False,
      EnableMCP = True, MCPJsonrpcErrors = True, MaxSidebandBodyBytes = 0,
      ExtractHeaders = [],
      MCPRetryMethods = [''tools/list'', ''resources/list'', ''prompts/list'', ''initialize'']\<rparr>"

definition sampleMCP :: MCPContext where
  "sampleMCP =
     \<lparr>mcp_Method = ''tools/call'', mcp_ToolName = ''get_weather'', mcp_ToolArguments = None,
      mcp_ResourceURI = [], mcp_PromptName = [], mcp_JsonrpcID = Some ''7''\<rparr>"

definition sampleRequest :: SidebandAccessRequest where
  "sampleRequest =
     \<lparr>req_SourceIP = ''10.0.0.1'', req_SourcePort = ''40000'', req_Method = ''POST'',
      req_URL = ''https://svc:443/mcp'', req_Body = ''hello'',
      req_Headers = [[(''content-type'', ''application/json'')]], req_HTTPVersion = ''1.1'',
      req_ClientCertificate = None, req_TrafficType = ''mcp'', req_MCP = Some sampleMCP,
      req_ExtractedHeaders = []\<rparr>"

definition sampleAllow :: SidebandAccessResponse where
  "sampleAllow =
     \<lparr>resp_SourceIP = [], resp_SourcePort = [], resp_Method = [], resp_URL = [],
      resp_Body = Some ''not json'', resp_Headers = [], resp_ClientCertificate = None,
      resp_State = None, resp_Response = None\<rparr>"

definition sampleOpenBreaker :: CircuitBreaker where
  "sampleOpenBreaker =
     \<lparr>cb_enabled = True, cb_closed = False, cb_openedAt = 0, cb_retryAfterSec = 5,
      cb_triggerType = Trigger429\<rparr>"

definition sampleOpenError :: CircuitBreakerOpenError where
  "sampleOpenError = \<lparr>Trigger = Trigger429, RetryAfterSec = 5, RemainingMs = 3500\<rparr>"

definition sampleStream :: string where
  "sampleStream =
     ''event: message'' @ [CHR 0x0A] @ ''data: '' @ sampleNotification @ [CHR 0x0A, CHR 0x0A]
     @ ''data: '' @ sampleResult @ [CHR 0x0D, CHR 0x0A, CHR 0x0A]"

text \<open>The access payload composed from \<open>samplePdk\<close> when no size limit applies.\<close>

definition sampleComposed :: SidebandAccessRequest where
  "sampleComposed =
     \<lparr>req_SourceIP = ''10.0.0.1'', req_SourcePort = ''40000'', req_Method = ''POST'',
      req_URL = ''https://svc:443/mcp'', req_Body = ''hello'',
      req_Headers = [[(''content-type'', ''application/json'')]], req_HTTPVersion = ''1.1'',
      req_ClientCertificate = None, req_TrafficType = [], req_MCP = None,
      req_ExtractedHeaders = []\<rparr>"

definition sampleDeny :: SidebandAccessResponse where
  "sampleDeny =
     \<lparr>resp_SourceIP = [], resp_SourcePort = [], resp_Method = [], resp_URL = [],
      resp_Body = None, resp_Headers = [], resp_ClientCertificate = None, resp_State = None,
      resp_Response =
        Some \<lparr>deny_ResponseCode = ''403'', deny_ResponseStatus = ''FORBIDDEN'',
              deny_Body = ''denied'', deny_Headers = [[(''x-reason'', ''policy'')]]\<rparr>\<rparr>"
section \<open>Facts about the primitives\<close>

lemma toLowerByte_Char [simp]:
  "toLowerByte (Char b0 b1 b2 b3 b4 b5 b6 b7) =
     (if \<not> b7 \<and> b6 \<and> \<not> b5 \<and>
         ((\<not> b4 \<and> (b0 \<or> b1 \<or> b2 \<or> b3)) \<or> (b4 \<and> \<not> (b3 \<and> b2) \<and> \<not> (b3 \<and> b1 \<and> b0)))
      then Char b0 b1 b2 b3 b4 True b6 b7 else Char b0 b1 b2 b3 b4 b5 b6 b7)"
  by (cases b0; cases b1; cases b2; cases b3; cases b4; cases b5; cases b6; cases b7;
      simp add: toLowerByte_def char_of_def bit_0 bit_Suc)

lemma toLowerByte_idem [simp]: "toLowerByte (toLowerByte c) = toLowerByte c"
  by (cases c) auto

lemma ToLower_idem [simp]: "ToLower (ToLower s) = ToLower s"
  by (simp add: ToLower_def)

section \<open>Round trip of the header codec\<close>

lemma map_of_appendValue:
  "map_of (appendValue m k v) = (map_of m)(k \<mapsto> index m k @ [v])"
  by (induction m k v rule: appendValue.induct) (auto simp: index_def fun_upd_twist)

lemma index_appendValue:
  "index (appendValue m k v) k' = (if k' = k then index m k @ [v] else index m k')"
  by (simp add: index_def map_of_appendValue)

lemma keys_appendValue: "fst ` set (appendValue m k v) = insert k (fst ` set m)"
  by (induction m k v rule: appendValue.induct) auto

lemma distinct_appendValue:
  "distinct (map fst m) \<Longrightarrow> distinct (map fst (appendValue m k v))"
proof (induction m k v rule: appendValue.induct)
  case (1 k v)
  then show ?case by simp
next
  case (2 k' vs m k v)
  then show ?case
    using keys_appendValue [of m k v] by (auto simp: image_iff)
qed

lemma index_flatten_entry:
  "index (foldl (\<lambda>r (name, value). appendValue r (ToLower name) value) acc entry) k
     = index acc k @ entryValues k entry"
  by (induction entry arbitrary: acc)
     (auto simp: entryValues_def index_appendValue split: prod.splits)

lemma index_flatten_loop:
  "index (foldl (\<lambda>result entry.
             foldl (\<lambda>r (name, value). appendValue r (ToLower name) value) result entry)
           acc headers) k
     = index acc k @ concat (map (entryValues k) headers)"
  by (induction headers arbitrary: acc) (simp_all add: index_flatten_entry)

lemma index_FlattenHeaders:
  "index (FlattenHeaders headers) k = concat (map (entryValues k) headers)"
proof (cases headers)
  case Nil
  then show ?thesis by (simp add: FlattenHeaders_def index_def)
next
  case (Cons e es)
  have "index [] k = []" by (simp add: index_def)
  with Cons show ?thesis
    by (simp add: FlattenHeaders_def index_flatten_loop index_flatten_entry)
qed

lemma format_values_loop:
  "foldl (\<lambda>r v. r @ [[(n, v)]]) acc vals = acc @ map (\<lambda>v. [(n, v)]) vals"
  by (induction vals arbitrary: acc) simp_all

lemma format_loop:
  "foldl (\<lambda>result (name, values). foldl (\<lambda>r v. r @ [[(ToLower name, v)]]) result values)
     acc headers
     = acc @ concat (map (\<lambda>(name, values). map (\<lambda>v. [(ToLower name, v)]) values) headers)"
  by (induction headers arbitrary: acc) (auto simp: format_values_loop)

lemma FormatHeaders_eq:
  "FormatHeaders headers
     = concat (map (\<lambda>(name, values). map (\<lambda>v. [(ToLower name, v)]) values) headers)"
  by (simp add: FormatHeaders_def format_loop)

lemma entryValues_formatted:
  "concat (map (entryValues k) (map (\<lambda>v. [(ToLower name, v)]) vals))
     = (if ToLower name = k then vals else [])"
  by (induction vals) (auto simp: entryValues_def)

text \<open>
  The general law of the codec: decoding an encoded map yields, at every name, the value
  lists of all keys that fold to that name, one after the other in iteration order.
\<close>

lemma index_Flatten_Format:
  "index (FlattenHeaders (FormatHeaders m)) k
     = concat (map snd (filter (\<lambda>(name, values). ToLower name = k) m))"
proof -
  have "concat (map (entryValues k)
          (concat (map (\<lambda>(name, values). map (\<lambda>v. [(ToLower name, v)]) values) m)))
        = concat (map snd (filter (\<lambda>(name, values). ToLower name = k) m))"
  proof (induction m)
    case Nil
    show ?case by simp
  next
    case (Cons p m)
    obtain name vals where p: "p = (name, vals)" by (cases p)
    show ?case
      using Cons.IH by (simp del: map_map add: p entryValues_formatted)
  qed
  then show ?thesis
    by (simp add: index_FlattenHeaders FormatHeaders_eq)
qed

lemma filter_distinct_key:
  "distinct (map (\<lambda>p. f (fst p)) m) \<Longrightarrow> (n, vs) \<in> set m \<Longrightarrow>
     filter (\<lambda>(name, values). f name = f n) m = [(n, vs)]"
proof (induction m)
  case Nil
  then show ?case by simp
next
  case (Cons p m)
  obtain n' vs' where p: "p = (n', vs')" by (cases p)
  show ?case
  proof (cases "(n, vs) = p")
    case True
    with Cons.prems p have "\<forall>q \<in> set m. f (fst q) \<noteq> f n"
      by (auto simp: image_iff)
    then have "filter (\<lambda>(name, values). f name = f n) m = []"
      by (auto simp: filter_empty_conv)
    with True p show ?thesis by simp
  next
    case False
    with Cons.prems have mem: "(n, vs) \<in> set m" by simp
    with Cons.prems p have "f n' \<noteq> f n"
      by (force simp: image_iff)
    with Cons mem p show ?thesis by simp
  qed
qed

text \<open>
  C3 (as amended). For every header map whose keys stay pairwise distinct after
  lowercasing, decoding the encoded map gives back, under each lowercased key, exactly the
  value list of that key in its original order, and gives no value under any other name.
\<close>

theorem header_roundtrip:
  assumes "distinct (map (\<lambda>p. ToLower (fst p)) m)"
  shows "(\<forall>(n, vs) \<in> set m. index (FlattenHeaders (FormatHeaders m)) (ToLower n) = vs)
       \<and> (\<forall>k. k \<notin> (\<lambda>p. ToLower (fst p)) ` set m \<longrightarrow>
              index (FlattenHeaders (FormatHeaders m)) k = [])"
proof (intro conjI ballI allI impI)
  fix p assume "p \<in> set m"
  obtain n vs where p: "p = (n, vs)" by (cases p)
  with \<open>p \<in> set m\<close> have mem: "(n, vs) \<in> set m" by simp
  from filter_distinct_key [OF assms mem]
  have "index (FlattenHeaders (FormatHeaders m)) (ToLower n) = vs"
    by (simp add: index_Flatten_Format)
  with p show "case p of (n, vs) \<Rightarrow> index (FlattenHeaders (FormatHeaders m)) (ToLower n) = vs"
    by simp
next
  fix k assume "k \<notin> (\<lambda>p. ToLower (fst p)) ` set m"
  then have "filter (\<lambda>(name, values). ToLower name = k) m = []"
    by (fastforce simp: filter_empty_conv image_iff)
  then show "index (FlattenHeaders (FormatHeaders m)) k = []"
    by (simp add: index_Flatten_Format)
qed

theorem header_roundtrip_witness:
  "index (FlattenHeaders (FormatHeaders
      [(''Content-Type'', [''application/json'']), (''X-Custom'', [''val1'', ''val2''])]))
     ''x-custom'' = [''val1'', ''val2'']
   \<and> index (FlattenHeaders (FormatHeaders
      [(''Content-Type'', [''application/json'']), (''X-Custom'', [''val1'', ''val2''])]))
     ''accept'' = []"
  using header_roundtrip
    [of "[(''Content-Type'', [''application/json'']), (''X-Custom'', [''val1'', ''val2''])]"]
  by (simp add: ToLower_def)

text \<open>
  The claim as stated fails when two keys differ only in case: the entry under \<open>a\<close> is
  then neither the value list of \<open>A\<close> nor that of \<open>a\<close>.
\<close>

theorem header_roundtrip_counterexample:
  "index (FlattenHeaders (FormatHeaders [(''A'', [''1'']), (''a'', [''2''])])) (ToLower ''A'')
     = [''1'', ''2'']
   \<and> index (FlattenHeaders (FormatHeaders [(''A'', [''1'']), (''a'', [''2''])])) (ToLower ''A'')
     \<noteq> index [(''A'', [''1'']), (''a'', [''2''])] ''A''
   \<and> index (FlattenHeaders (FormatHeaders [(''A'', [''1'']), (''a'', [''2''])])) (ToLower ''a'')
     \<noteq> index [(''A'', [''1'']), (''a'', [''2''])] ''a''"
  by (simp add: FlattenHeaders_def FormatHeaders_def index_def ToLower_def)

section \<open>The body check of the access phase\<close>

text \<open>The calls of \<open>SetRawBody\<close> in a trace of gateway calls.\<close>

lemma installedBodies_append [simp]:
  "installedBodies (xs @ ys) = installedBodies xs @ installedBodies ys"
  by (induction xs rule: installedBodies.induct) simp_all

lemma installedBodies_headerRemovals [simp]:
  "installedBodies (headerRemovals currentFlat newFlat) = []"
  by (induction currentFlat) (auto simp: headerRemovals_def)

lemma installedBodies_AddHeaders [simp]:
  "installedBodies (map (AddHeader name) vs) = []"
  by (induction vs) simp_all

lemma installedBodies_headerUpdates [simp]:
  "installedBodies (headerUpdates currentFlat newFlat) = []"
proof (induction newFlat)
  case Nil
  show ?case by (simp add: headerUpdates_def)
next
  case (Cons p newFlat)
  obtain name vals where p: "p = (name, vals)" by (cases p)
  have "installedBodies
          (case vals of [] \<Rightarrow> [] | v # vs \<Rightarrow> SetHeader name v # map (AddHeader name) vs) = []"
    by (cases vals) simp_all
  with Cons show ?case
    by (simp add: headerUpdates_def p Let_def)
qed

lemma installedBodies_updateURL [simp]:
  "installedBodies (updateURL L newURL currentURL) = []"
  by (simp add: updateURL_def split: option.splits)

lemma ensureValidJsonRPC_id: "ensureValidJsonRPC L body mcpCtx = body"
  by (simp add: ensureValidJsonRPC_def split: option.splits)

text \<open>
  C10. \<open>ensureValidJsonRPC\<close> returns its input on every path, whatever the decoder says,
  and the only body \<open>updateRequest\<close> ever installs is the provider's body, unchanged: it is
  installed exactly when the provider sent a body that differs from the current one
  (and the request headers could be read, before which \<open>updateRequest\<close> does nothing).
\<close>

theorem ensureValidJsonRPC_identity:
  "ensureValidJsonRPC L body mcpCtx = body
   \<and> installedBodies (updateRequest L kong conf resp payload)
       = (case Request_GetHeaders kong of
            Inl err \<Rightarrow> []
          | Inr currentHeaders \<Rightarrow>
              (case resp_Body resp of
                 None \<Rightarrow> []
               | Some b \<Rightarrow> if b \<noteq> orEmpty (Request_GetRawBody kong) then [b] else []))"
proof
  show "ensureValidJsonRPC L body mcpCtx = body" by (rule ensureValidJsonRPC_id)
next
  show "installedBodies (updateRequest L kong conf resp payload)
       = (case Request_GetHeaders kong of
            Inl err \<Rightarrow> []
          | Inr currentHeaders \<Rightarrow>
              (case resp_Body resp of
                 None \<Rightarrow> []
               | Some b \<Rightarrow> if b \<noteq> orEmpty (Request_GetRawBody kong) then [b] else []))"
  proof (cases "Request_GetHeaders kong")
    case (Inl err)
    then show ?thesis by (simp add: updateRequest_def)
  next
    case (Inr currentHeaders)
    then show ?thesis
      by (simp add: updateRequest_def Let_def ensureValidJsonRPC_id
            split: option.splits)
  qed
qed

theorem ensureValidJsonRPC_identity_witness:
  "ensureValidJsonRPC sampleLib ''not json'' sampleMCP = ''not json''
   \<and> installedBodies (updateRequest sampleLib samplePdk sampleConfig sampleAllow sampleRequest)
       = [''not json'']"
  using ensureValidJsonRPC_identity
    [of sampleLib "''not json''" sampleMCP samplePdk sampleConfig sampleAllow sampleRequest]
  by (simp add: samplePdk_def sampleAllow_def orEmpty_def)

text \<open>Every header that \<open>FlattenHeaders\<close> returns has at least one value.\<close>

lemma appendValue_nonempty:
  "\<forall>(k, vs) \<in> set m. vs \<noteq> [] \<Longrightarrow> \<forall>(k, vs) \<in> set (appendValue m name v). vs \<noteq> []"
  by (induction m name v rule: appendValue.induct) auto

lemma flatten_entry_nonempty:
  "\<forall>(k, vs) \<in> set acc. vs \<noteq> [] \<Longrightarrow>
     \<forall>(k, vs) \<in> set (foldl (\<lambda>r (name, value). appendValue r (ToLower name) value) acc entry).
        vs \<noteq> []"
proof (induction entry arbitrary: acc)
  case Nil
  then show ?case by simp
next
  case (Cons p entry)
  obtain name v where p: "p = (name, v)" by (cases p)
  from Cons.prems have "\<forall>(k, vs) \<in> set (appendValue acc (ToLower name) v). vs \<noteq> []"
    by (rule appendValue_nonempty)
  then show ?case using Cons.IH by (simp add: p)
qed

lemma flatten_loop_nonempty:
  "\<forall>(k, vs) \<in> set acc. vs \<noteq> [] \<Longrightarrow>
     \<forall>(k, vs) \<in> set (foldl (\<lambda>result entry.
             foldl (\<lambda>r (name, value). appendValue r (ToLower name) value) result entry)
           acc headers). vs \<noteq> []"
proof (induction headers arbitrary: acc)
  case Nil
  then show ?case by simp
next
  case (Cons entry headers)
  from Cons.prems
  have "\<forall>(k, vs) \<in> set (foldl (\<lambda>r (name, value). appendValue r (ToLower name) value)
          acc entry). vs \<noteq> []"
    by (rule flatten_entry_nonempty)
  then show ?case using Cons.IH by simp
qed

lemma FlattenHeaders_nonempty: "(k, vs) \<in> set (FlattenHeaders headers) \<Longrightarrow> vs \<noteq> []"
  using flatten_loop_nonempty [of "[]" headers]
  by (auto simp: FlattenHeaders_def split: if_splits)

section \<open>Response phase\<close>

lemma loadPerRequestContext_request:
  "loadPerRequestContext L kong = Inr (originalRequest, state) \<Longrightarrow>
     originalRequest \<noteq> None \<and> (state = None \<or> len_raw state > 0)"
  by (auto simp: loadPerRequestContext_def orFail_def Let_def len_raw_def
           split: sum.splits option.splits if_splits)
     metis+

lemma composeResponsePayload_state:
  assumes "composeResponsePayload L kong conf originalRequest state = Inr payload"
  shows "pl_State payload = (if len_raw state > 0 then state else None)"
    and "pl_Request payload = (if len_raw state > 0 then None else originalRequest)"
  using assms
  by (auto simp: composeResponsePayload_def orFail_def Let_def
           split: sum.splits option.splits if_splits)

text \<open>
  C9. In every composed response payload \<open>state\<close> and \<open>request\<close> exclude each other. When
  a nonempty state was carried over, the payload holds that state and no request;
  otherwise it holds no state and, under \<open>request\<close>, the original access request, which
  the loader of the per-request context always supplies.
\<close>

theorem response_payload_state_xor_request:
  assumes "composeResponsePayload L kong conf originalRequest state = Inr payload"
  shows "\<not> (pl_State payload \<noteq> None \<and> pl_Request payload \<noteq> None)
       \<and> (len_raw state > 0 \<longrightarrow> pl_State payload = state \<and> pl_Request payload = None)
       \<and> (len_raw state = 0 \<longrightarrow>
             pl_State payload = None \<and> pl_Request payload = originalRequest)
       \<and> (loadPerRequestContext L kong = Inr (originalRequest, state) \<longrightarrow>
             originalRequest \<noteq> None)"
  using composeResponsePayload_state [OF assms] loadPerRequestContext_request
  by auto

theorem response_payload_state_xor_request_witness:
  "\<exists>payload.
     composeResponsePayload sampleLib samplePdk sampleConfig (Some zeroAccessRequest) None
       = Inr payload
     \<and> loadPerRequestContext sampleLib samplePdk = Inr (Some zeroAccessRequest, None)
     \<and> pl_State payload = None \<and> pl_Request payload = Some zeroAccessRequest"
proof -
  obtain payload where p:
    "composeResponsePayload sampleLib samplePdk sampleConfig (Some zeroAccessRequest) None
       = Inr payload"
    by (simp add: composeResponsePayload_def orFail_def samplePdk_def Let_def)
  have l: "loadPerRequestContext sampleLib samplePdk = Inr (Some zeroAccessRequest, None)"
    by (simp add: loadPerRequestContext_def orFail_def samplePdk_def Let_def)
  from response_payload_state_xor_request [OF p] l p show ?thesis
    by (simp add: len_raw_def)
qed

lemma foldl_keep: "(\<And>a x. f a x = a) \<Longrightarrow> foldl f acc xs = acc"
  by (induction xs) simp_all

lemma handleResponseResult_exit:
  "handleResponseResult L kong conf result =
     [Exit (case Atoi (res_ResponseCode result) of None \<Rightarrow> 200 | Some n \<Rightarrow> n)
           (res_Body result) (FlattenHeaders (res_Headers result))]"
  by (simp add: handleResponseResult_def Let_def foldl_keep split: sum.splits prod.splits)

text \<open>
  C1. The claim: the client response is replaced by the status, the body and the decoded
  headers of the provider's result, and the upstream headers \<open>content-length\<close>, \<open>date\<close>,
  \<open>connection\<close> and \<open>vary\<close> are preserved even when the provider's header set lacks them.
  The first half holds (\<open>handleResponseResult_exit\<close>). The second does not: the header map
  handed to \<open>Exit\<close> is the provider's alone, so with an upstream response that carries a
  \<open>Date\<close> header and a provider result without one, the client response has no \<open>date\<close>
  entry.
\<close>

theorem handleResponseResult_preserved_header_lost:
  "ServiceResponse_GetHeaders samplePdk
     = Inr [(''Date'', [''Mon, 02 Feb 2026 10:00:00 GMT'']), (''X-Upstream'', [''u1''])]
   \<and> preservedResponseHeaders (ToLower ''Date'')
   \<and> handleResponseResult sampleLib samplePdk sampleConfig
        \<lparr>res_ResponseCode = ''200'', res_Body = ''ok'',
         res_Headers = [[(''content-type'', ''text/plain'')]], res_Message = [], res_ID = []\<rparr>
       = [Exit 200 ''ok'' [(''content-type'', [''text/plain''])]]
   \<and> index [(''content-type'', [''text/plain''])] ''date'' = []"
  by (simp add: handleResponseResult_exit samplePdk_def preservedResponseHeaders_def
        ToLower_def FlattenHeaders_def Atoi_def isDigit_def digitsValue_def index_def)

section \<open>Responses to an open circuit\<close>

lemma wrap64_id: "- (2 ^ 63) \<le> x \<Longrightarrow> x < 2 ^ 63 \<Longrightarrow> wrap64 x = x"
  by (simp add: wrap64_def)

lemma wrap64_range: "- (2 ^ 63) \<le> wrap64 x \<and> wrap64 x < 2 ^ 63"
proof -
  have "0 \<le> (x + 2 ^ 63) mod 2 ^ 64" "(x + 2 ^ 63) mod 2 ^ 64 < (2 ^ 64 :: int)"
    by simp_all
  then show ?thesis by (simp add: wrap64_def)
qed

lemma quo_pos: "0 \<le> a \<Longrightarrow> 0 < b \<Longrightarrow> quo a b = a div b"
  by (simp add: quo_def)

lemma quo_neg: "a < 0 \<Longrightarrow> 0 < b \<Longrightarrow> quo a b = - ((- a) div b)"
  by (simp add: quo_def)

lemma remainingSeconds_ceil:
  assumes "- (2 ^ 63) \<le> ms" and "ms + 999 < 2 ^ 63"
  shows "remainingSeconds ms = ceilSeconds ms"
proof -
  have w: "wrap64 (ms + 999) = ms + 999"
    using assms by (intro wrap64_id) simp_all
  show ?thesis
  proof (cases "0 \<le> ms + 999")
    case True
    then have "quo (ms + 999) 1000 = (ms + 999) div 1000" by (simp add: quo_pos)
    moreover have "(ms + 999) div 1000 = - ((- ms) div 1000)" by linarith
    ultimately show ?thesis
      by (simp add: remainingSeconds_def ceilSeconds_def w Let_def max_def)
  next
    case False
    then have q: "quo (ms + 999) 1000 = - ((- (ms + 999)) div 1000)" by (simp add: quo_neg)
    from False have "- ((- (ms + 999)) div 1000) \<le> 0" "- ((- ms) div 1000) \<le> 0"
      by linarith+
    then show ?thesis
      by (simp add: remainingSeconds_def ceilSeconds_def w q Let_def max_def)
  qed
qed

lemma Allow_remaining_range:
  assumes "Allow cb now = (False, Some cbErr, cb')" and "cb_openedAt cb \<le> now"
  shows "0 \<le> RemainingMs cbErr" and "RemainingMs cbErr + 999 < 2 ^ 63"
    and "Trigger cbErr = cb_triggerType cb"
proof -
  define d where "d = wrap64 (cb_retryAfterSec cb * 1000000000)"
  define r where "r = d - (now - cb_openedAt cb)"
  from assms(1) have open_: "now - cb_openedAt cb < d"
    and e: "cbErr = \<lparr>Trigger = cb_triggerType cb, RetryAfterSec = cb_retryAfterSec cb,
                     RemainingMs = quo r 1000000\<rparr>"
    by (auto simp: Allow_def Let_def d_def r_def split: if_splits)
  have "d < 2 ^ 63" using wrap64_range [of "cb_retryAfterSec cb * 1000000000"]
    by (simp add: d_def)
  with open_ assms(2) have r: "0 < r" "r < 2 ^ 63" by (simp_all add: r_def)
  then have q: "quo r 1000000 = r div 1000000" by (simp add: quo_pos)
  from r have "0 \<le> r div 1000000" by simp
  moreover have "r div 1000000 \<le> (2 ^ 63 - 1) div 1000000"
    by (rule zdiv_mono1) (use r in simp_all)
  then have "r div 1000000 \<le> 9223372036854" by simp
  ultimately show "0 \<le> RemainingMs cbErr" and "RemainingMs cbErr + 999 < 2 ^ 63"
    using e q by simp_all
  show "Trigger cbErr = cb_triggerType cb" using e by simp
qed

lemma handleCircuitBreakerErrorResponse_Some:
  "handleCircuitBreakerErrorResponse L cbErr conf (Some payload)
     = handleCircuitBreakerError L cbErr conf payload"
  by (simp add: handleCircuitBreakerErrorResponse_def handleCircuitBreakerError_def Let_def)

text \<open>
  C2 (as amended). For every circuit-open error that the breaker produces with the
  rate-limit trigger, both phases answer with status 429 and the headers
  \<open>Content-Type: application/json\<close> and \<open>Retry-After: N\<close>, where \<open>N\<close> is the remaining time in
  seconds rounded up, at least 1. The body is the \<open>LIMIT_EXCEEDED\<close> document naming \<open>N\<close>,
  unless JSON-RPC errors are enabled and the request is MCP: then it is the JSON-RPC error
  for status 429 carrying the request's id.
\<close>

theorem rate_limit_open_response:
  assumes "Allow cb now = (False, Some cbErr, cb')"
    and "cb_openedAt cb \<le> now"
    and "Trigger cbErr = Trigger429"
  shows \<open>handleCircuitBreakerError L cbErr conf payload =
           [Exit 429
              (case (if MCPJsonrpcErrors conf then req_MCP payload else None) of
                 None \<Rightarrow>
                   ''{"code":"LIMIT_EXCEEDED","message":"The request exceeded the allowed rate limit. Please try after ''
                     @ Itoa (ceilSeconds (RemainingMs cbErr)) @ '' second."}''
               | Some mcpCtx \<Rightarrow>
                   formatMCPDenyResponse L 429
                     (''Service temporarily unavailable. Retry after ''
                        @ Itoa (ceilSeconds (RemainingMs cbErr)) @ '' seconds.'')
                     (mcp_JsonrpcID mcpCtx))
              [(''Content-Type'', [''application/json'']),
               (''Retry-After'', [Itoa (ceilSeconds (RemainingMs cbErr))])]]
         \<and> handleCircuitBreakerErrorResponse L cbErr conf (Some payload)
             = handleCircuitBreakerError L cbErr conf payload
         \<and> handleCircuitBreakerErrorResponse L cbErr conf None =
             [Exit 429
                (''{"code":"LIMIT_EXCEEDED","message":"The request exceeded the allowed rate limit. Please try after ''
                   @ Itoa (ceilSeconds (RemainingMs cbErr)) @ '' second."}'')
                [(''Content-Type'', [''application/json'']),
                 (''Retry-After'', [Itoa (ceilSeconds (RemainingMs cbErr))])]]\<close>
proof -
  from Allow_remaining_range [OF assms(1,2)]
  have "remainingSeconds (RemainingMs cbErr) = ceilSeconds (RemainingMs cbErr)"
    by (intro remainingSeconds_ceil) simp_all
  with assms(3) show ?thesis
    by (simp add: handleCircuitBreakerError_def handleCircuitBreakerErrorResponse_def Let_def
          split: option.splits)
qed

lemmas Itoa_eval = Itoa_def natDigits.simps digitChar_def char_of_def bit_0 bit_Suc

lemma sampleAllow_open:
  "Allow sampleOpenBreaker 1500000000 = (False, Some sampleOpenError, sampleOpenBreaker)"
  by (simp add: Allow_def sampleOpenBreaker_def sampleOpenError_def wrap64_def quo_def Let_def)

lemma sample_ceilSeconds: "Itoa (ceilSeconds (RemainingMs sampleOpenError)) = ''4''"
  by (simp add: sampleOpenError_def ceilSeconds_def Itoa_eval)

lemma sample_remainingSeconds: "remainingSeconds 3500 = 4"
  by (simp add: remainingSeconds_def wrap64_def quo_def)

theorem rate_limit_open_response_witness:
  \<open>handleCircuitBreakerError sampleLib sampleOpenError (sampleConfig\<lparr>MCPJsonrpcErrors := False\<rparr>)
       sampleRequest =
     [Exit 429
        ''{"code":"LIMIT_EXCEEDED","message":"The request exceeded the allowed rate limit. Please try after 4 second."}''
        [(''Content-Type'', [''application/json'']), (''Retry-After'', [''4''])]]\<close>
  using rate_limit_open_response [OF sampleAllow_open, of sampleLib
          "sampleConfig\<lparr>MCPJsonrpcErrors := False\<rparr>" sampleRequest]
  by (simp add: sampleOpenBreaker_def sample_ceilSeconds) (simp add: sampleOpenError_def)

text \<open>
  The claim as stated fails for an MCP request when JSON-RPC errors are enabled: the body
  is then the JSON-RPC error, not the \<open>LIMIT_EXCEEDED\<close> document.
\<close>

theorem rate_limit_open_response_counterexample:
  \<open>Allow sampleOpenBreaker 1500000000 = (False, Some sampleOpenError, sampleOpenBreaker)
   \<and> Trigger sampleOpenError = Trigger429
   \<and> MCPJsonrpcErrors sampleConfig \<and> req_MCP sampleRequest = Some sampleMCP
   \<and> handleCircuitBreakerError sampleLib sampleOpenError sampleConfig sampleRequest =
       [Exit 429
          ''{"jsonrpc":"2.0","id":7,"error":{"code":-32000,"message":"Service temporarily unavailable. Retry after 4 seconds."}}''
          [(''Content-Type'', [''application/json'']), (''Retry-After'', [''4''])]]\<close>
  by (simp add: sampleAllow_open handleCircuitBreakerError_def sampleOpenError_def
        sampleConfig_def sampleRequest_def sampleMCP_def formatMCPDenyResponse_def
        marshalRawMessage_def sampleLib_def httpStatusToJsonRPCError_def stringLiteral_def
        sample_remainingSeconds isJSONSpace_def Itoa_eval)

section \<open>The retry loop\<close>

lemma retryLoop_attempts_le:
  "ex_attempts (retryLoop doRequest tripNow cb n attempt prev) \<le> attempt + n"
proof (induction n arbitrary: attempt prev)
  case 0
  show ?case by (simp add: Let_def)
next
  case (Suc n)
  show ?case
  proof (cases "doRequest attempt")
    case (Failed err)
    with Suc [of "Suc attempt"] show ?thesis by simp
  next
    case (Responded statusCode h b)
    with Suc [of "Suc attempt"] show ?thesis by simp
  qed
qed

lemma wrap64_le:
  assumes "- (2 ^ 63) \<le> x"
  shows "wrap64 x \<le> x"
proof -
  have "wrap64 x = (x + 9223372036854775808) mod 18446744073709551616 - 9223372036854775808"
    by (simp add: wrap64_def)
  moreover have "(x + 9223372036854775808) mod 18446744073709551616
       = (x + 9223372036854775808)
         - 18446744073709551616 * ((x + 9223372036854775808) div 18446744073709551616)"
    by (rule minus_mult_div_eq_mod [symmetric])
  moreover from assms have "0 \<le> (x + 9223372036854775808) div (18446744073709551616 :: int)"
    by (simp add: pos_imp_zdiv_nonneg_iff)
  ultimately show ?thesis by linarith
qed

text \<open>
  C5 (as amended). A call issues at most \<open>1 + max_retries\<close> attempts when \<open>max_retries\<close> is
  not negative, and at most one when it is negative (\<open>max_retries\<close> being a 64-bit
  integer). A call that carries an MCP method outside \<open>mcp_retry_methods\<close> issues exactly
  one attempt when the breaker admits it and none when the breaker is open, whatever
  \<open>max_retries\<close> is. A call that the breaker rejects never issues an attempt.
\<close>

theorem attempts_bounded:
  "(0 \<le> MaxRetries config \<longrightarrow>
      int (ex_attempts (Execute config cb doRequest now tripNow mcpMethod))
        \<le> 1 + MaxRetries config)
   \<and> (- (2 ^ 63) \<le> MaxRetries config \<and> MaxRetries config < 0 \<longrightarrow>
        ex_attempts (Execute config cb doRequest now tripNow mcpMethod) \<le> 1)
   \<and> (mcpMethod \<noteq> [] \<and> \<not> isMCPMethodRetryable mcpMethod (MCPRetryMethods config) \<longrightarrow>
        ex_attempts (Execute config cb doRequest now tripNow mcpMethod)
          = (if fst (Allow cb now) then 1 else 0))
   \<and> (\<not> fst (Allow cb now) \<longrightarrow>
        ex_attempts (Execute config cb doRequest now tripNow mcpMethod) = 0)"
proof -
  obtain ok cbErr cb1 where al: "Allow cb now = (ok, cbErr, cb1)"
    by (cases "Allow cb now") auto
  have loop: "ex_attempts (Execute config cb doRequest now tripNow mcpMethod)
          \<le> nat (maxAttempts config mcpMethod)"
  proof (cases ok)
    case False
    with al show ?thesis by (simp add: Execute_def)
  next
    case True
    have "ex_attempts (retryLoop doRequest tripNow cb1 (nat (maxAttempts config mcpMethod)) 0
            \<lparr>lastErr = None, lastStatus = 0, lastHeaders = [], lastBody = []\<rparr>)
          \<le> nat (maxAttempts config mcpMethod)"
      using retryLoop_attempts_le [of doRequest tripNow cb1 _ 0] by simp
    with True al show ?thesis by (simp add: Execute_def)
  qed
  have m: "maxAttempts config mcpMethod \<le> max 1 (1 + MaxRetries config)"
    if "- (2 ^ 63) \<le> MaxRetries config"
    using that wrap64_le [of "1 + MaxRetries config"] by (auto simp: maxAttempts_def)
  have b1: "int (ex_attempts (Execute config cb doRequest now tripNow mcpMethod))
          \<le> 1 + MaxRetries config" if "0 \<le> MaxRetries config"
    using loop m that by simp
  have b2: "ex_attempts (Execute config cb doRequest now tripNow mcpMethod) \<le> 1"
    if "- (2 ^ 63) \<le> MaxRetries config \<and> MaxRetries config < 0"
    using loop m that by simp
  have one: "ex_attempts (Execute config cb doRequest now tripNow mcpMethod)
          = (if fst (Allow cb now) then 1 else 0)"
    if "mcpMethod \<noteq> [] \<and> \<not> isMCPMethodRetryable mcpMethod (MCPRetryMethods config)"
    using that al
    by (simp add: Execute_def maxAttempts_def Let_def split: attempt_result.splits)
  have none: "ex_attempts (Execute config cb doRequest now tripNow mcpMethod) = 0"
    if "\<not> fst (Allow cb now)"
    using that al by (simp add: Execute_def)
  from b1 b2 one none show ?thesis by blast
qed

theorem attempts_bounded_witness:
  "ex_attempts (Execute sampleConfig (NewCircuitBreaker True)
      (\<lambda>i. Responded 500 [] []) 0 0 ''tools/call'') = 1
   \<and> int (ex_attempts (Execute sampleConfig (NewCircuitBreaker True)
      (\<lambda>i. Responded 500 [] []) 0 0 ''tools/call'')) \<le> 4
   \<and> ex_attempts (Execute (sampleConfig\<lparr>MaxRetries := - 5\<rparr>) (NewCircuitBreaker True)
      (\<lambda>i. Responded 500 [] []) 0 0 ''tools/list'') \<le> 1
   \<and> ex_attempts (Execute sampleConfig sampleOpenBreaker
      (\<lambda>i. Responded 500 [] []) 1500000000 1500000000 ''tools/call'') = 0"
proof -
  have a: "fst (Allow (NewCircuitBreaker True) 0)"
    by (simp add: Allow_def NewCircuitBreaker_def)
  have n: "\<not> isMCPMethodRetryable ''tools/call'' (MCPRetryMethods sampleConfig)"
    by (simp add: sampleConfig_def isMCPMethodRetryable_def)
  have r: "0 \<le> MaxRetries sampleConfig" "1 + MaxRetries sampleConfig = 4"
    by (simp_all add: sampleConfig_def)
  have neg: "- (2 ^ 63) \<le> MaxRetries (sampleConfig\<lparr>MaxRetries := - 5\<rparr>)
             \<and> MaxRetries (sampleConfig\<lparr>MaxRetries := - 5\<rparr>) < 0"
    by simp
  have o: "\<not> fst (Allow sampleOpenBreaker 1500000000)"
    by (simp add: sampleAllow_open)
  from attempts_bounded [of sampleConfig "NewCircuitBreaker True"
          "\<lambda>i. Responded 500 [] []" 0 0 "''tools/call''"] a n r
  have w1: "ex_attempts (Execute sampleConfig (NewCircuitBreaker True)
      (\<lambda>i. Responded 500 [] []) 0 0 ''tools/call'') = 1"
    and w2: "int (ex_attempts (Execute sampleConfig (NewCircuitBreaker True)
      (\<lambda>i. Responded 500 [] []) 0 0 ''tools/call'')) \<le> 4"
    by simp_all
  from attempts_bounded [of "sampleConfig\<lparr>MaxRetries := - 5\<rparr>" "NewCircuitBreaker True"
          "\<lambda>i. Responded 500 [] []" 0 0 "''tools/list''"] neg
  have w3: "ex_attempts (Execute (sampleConfig\<lparr>MaxRetries := - 5\<rparr>) (NewCircuitBreaker True)
      (\<lambda>i. Responded 500 [] []) 0 0 ''tools/list'') \<le> 1"
    by blast
  from attempts_bounded [of sampleConfig sampleOpenBreaker
          "\<lambda>i. Responded 500 [] []" 1500000000 1500000000 "''tools/call''"] o
  have w4: "ex_attempts (Execute sampleConfig sampleOpenBreaker
      (\<lambda>i. Responded 500 [] []) 1500000000 1500000000 ''tools/call'') = 0"
    by blast
  from w1 w2 w3 w4 show ?thesis by blast
qed

text \<open>
  The claim as stated fails in two ways. With the breaker open, a \<open>tools/call\<close> request
  (not a retryable method) is rejected before the loop and issues no attempt instead
  of exactly one. With \<open>max_retries = -5\<close>, which no code on the call path rules out, a
  non-MCP call issues no attempt, which is more than \<open>1 + max_retries = -4\<close>.
\<close>

theorem attempts_bounded_counterexample:
  "\<not> isMCPMethodRetryable ''tools/call'' (MCPRetryMethods sampleConfig)
   \<and> Allow sampleOpenBreaker 1500000000 = (False, Some sampleOpenError, sampleOpenBreaker)
   \<and> ex_attempts (Execute sampleConfig sampleOpenBreaker
        (\<lambda>i. Responded 200 [] []) 1500000000 1500000000 ''tools/call'') = 0
   \<and> ex_attempts (Execute (sampleConfig\<lparr>MaxRetries := - 5\<rparr>) (NewCircuitBreaker True)
        (\<lambda>i. Responded 200 [] []) 0 0 []) = 0
   \<and> \<not> (0 \<le> 1 + MaxRetries (sampleConfig\<lparr>MaxRetries := - 5\<rparr>))"
proof -
  have n: "\<not> isMCPMethodRetryable ''tools/call'' (MCPRetryMethods sampleConfig)"
    by (simp add: sampleConfig_def isMCPMethodRetryable_def)
  have o: "ex_attempts (Execute sampleConfig sampleOpenBreaker
        (\<lambda>i. Responded 200 [] []) 1500000000 1500000000 ''tools/call'') = 0"
    by (simp add: Execute_def sampleAllow_open)
  have m: "maxAttempts (sampleConfig\<lparr>MaxRetries := - 5\<rparr>) [] = - 4"
    by (simp add: maxAttempts_def wrap64_def)
  have c: "ex_attempts (Execute (sampleConfig\<lparr>MaxRetries := - 5\<rparr>) (NewCircuitBreaker True)
        (\<lambda>i. Responded 200 [] []) 0 0 []) = 0"
    by (simp add: Execute_def Allow_def NewCircuitBreaker_def m Let_def)
  from n o c sampleAllow_open show ?thesis by simp
qed

section \<open>HTTP 429 from the provider\<close>

lemma retryLoop_429:
  assumes "k < n"
    and "\<forall>i<k. retried (doRequest (attempt + i))"
    and "doRequest (attempt + k) = Responded 429 h b"
  shows "retryLoop doRequest tripNow cb n attempt prev =
           \<lparr>ex_status = 429, ex_headers = h, ex_body = b, ex_err = None,
            ex_cb = Trip cb Trigger429 (parseRetryAfter h) tripNow,
            ex_attempts = Suc (attempt + k)\<rparr>"
  using assms
proof (induction k arbitrary: n attempt prev)
  case 0
  then obtain n' where "n = Suc n'" by (cases n) auto
  with 0 show ?case by simp
next
  case (Suc k)
  then obtain n' where n: "n = Suc n'" and kn: "k < n'" by (cases n) auto
  from Suc.prems(2) have r0: "retried (doRequest attempt)"
    by (metis add.right_neutral zero_less_Suc)
  from Suc.prems(2) have rest: "\<forall>i<k. retried (doRequest (Suc attempt + i))"
    by (metis Suc_less_eq add_Suc_right add_Suc)
  from Suc.prems(3) have hit: "doRequest (Suc attempt + k) = Responded 429 h b" by simp
  have step: "retryLoop doRequest tripNow cb n' (Suc attempt) p =
           \<lparr>ex_status = 429, ex_headers = h, ex_body = b, ex_err = None,
            ex_cb = Trip cb Trigger429 (parseRetryAfter h) tripNow,
            ex_attempts = Suc (Suc attempt + k)\<rparr>" for p
    by (rule Suc.IH [OF kn rest hit])
  show ?case
  proof (cases "doRequest attempt")
    case (Failed err)
    then show ?thesis by (simp add: n step)
  next
    case (Responded statusCode h' b')
    with r0 have "statusCode \<ge> 500" by (simp add: retried_def)
    with Responded show ?thesis by (simp add: n step)
  qed
qed

lemma retryLoop_breaker:
  "ex_status (retryLoop doRequest tripNow cb n attempt prev) \<noteq> 429 \<Longrightarrow>
     ex_cb (retryLoop doRequest tripNow cb n attempt prev)
       \<in> {cb, Trip cb Trigger5xx defaultRetryAfterSec tripNow,
          Trip cb TriggerTimeout defaultRetryAfterSec tripNow}"
proof (induction n arbitrary: attempt prev)
  case 0
  show ?case by (simp add: Let_def)
next
  case (Suc n)
  show ?case
  proof (cases "doRequest attempt")
    case (Failed err)
    with Suc show ?thesis by simp
  next
    case (Responded statusCode h b)
    with Suc show ?thesis by (simp split: if_splits)
  qed
qed

lemma Trip_enabled:
  "cb_enabled cb \<Longrightarrow>
     Trip cb trigger secs now =
       cb\<lparr>cb_closed := False, cb_openedAt := now, cb_triggerType := trigger,
          cb_retryAfterSec := (if secs > 0 then secs else defaultRetryAfterSec)\<rparr>"
  by (simp add: Trip_def)

lemma parseRetryAfter_eq:
  "parseRetryAfter h =
     (case Atoi (header_Get h ''Retry-After'') of
        Some secs \<Rightarrow> if 0 < secs then secs else 30
      | None \<Rightarrow> 30)"
  by (auto simp: parseRetryAfter_def defaultRetryAfterSec_def Atoi_def Let_def
           split: option.splits)

lemma parseRetryAfter_pos: "0 < parseRetryAfter h"
  by (simp add: parseRetryAfter_eq split: option.splits)

text \<open>
  C4. Suppose the breaker admits the call and attempt number \<open>k\<close>, reached because every
  earlier attempt failed in transport or with a 5xx status, returns HTTP 429. Then
  \<open>Execute\<close> makes no further attempt, returns that 429 response without an error, and
  calls \<open>Trip\<close> with the rate-limit trigger and the duration read from \<open>Retry-After\<close>: the
  header's value when it is a decimal integer greater than 0, else 30 seconds. On an
  enabled breaker this opens the circuit for that duration (a disabled breaker ignores
  every trip). Whenever a call ends otherwise, the breaker is left as it was or tripped
  for a server error or a timeout, both with the 30-second default.
\<close>

theorem rate_limit_trips_breaker:
  assumes "Allow cb now = (True, e, cb1)"
    and "k < nat (maxAttempts config mcpMethod)"
    and "\<forall>i<k. retried (doRequest i)"
    and "doRequest k = Responded 429 h b"
  shows "Execute config cb doRequest now tripNow mcpMethod =
           \<lparr>ex_status = 429, ex_headers = h, ex_body = b, ex_err = None,
            ex_cb = Trip cb1 Trigger429 (parseRetryAfter h) tripNow,
            ex_attempts = Suc k\<rparr>
       \<and> parseRetryAfter h =
           (case Atoi (header_Get h ''Retry-After'') of
              Some secs \<Rightarrow> if 0 < secs then secs else 30
            | None \<Rightarrow> 30)
       \<and> (cb_enabled cb1 \<longrightarrow>
             Trip cb1 Trigger429 (parseRetryAfter h) tripNow =
               cb1\<lparr>cb_closed := False, cb_openedAt := tripNow,
                   cb_triggerType := Trigger429, cb_retryAfterSec := parseRetryAfter h\<rparr>)
       \<and> (\<forall>doRequest' mcpMethod'.
             ex_status (Execute config cb doRequest' now tripNow mcpMethod') \<noteq> 429 \<longrightarrow>
             ex_cb (Execute config cb doRequest' now tripNow mcpMethod')
               \<in> {cb1, Trip cb1 Trigger5xx 30 tripNow, Trip cb1 TriggerTimeout 30 tripNow})"
proof (intro conjI allI impI)
  show "Execute config cb doRequest now tripNow mcpMethod =
           \<lparr>ex_status = 429, ex_headers = h, ex_body = b, ex_err = None,
            ex_cb = Trip cb1 Trigger429 (parseRetryAfter h) tripNow,
            ex_attempts = Suc k\<rparr>"
    using retryLoop_429 [of k _ doRequest 0 h b tripNow cb1] assms
    by (simp add: Execute_def)
next
  show "parseRetryAfter h =
           (case Atoi (header_Get h ''Retry-After'') of
              Some secs \<Rightarrow> if 0 < secs then secs else 30
            | None \<Rightarrow> 30)"
    by (rule parseRetryAfter_eq)
next
  assume "cb_enabled cb1"
  then show "Trip cb1 Trigger429 (parseRetryAfter h) tripNow =
               cb1\<lparr>cb_closed := False, cb_openedAt := tripNow,
                   cb_triggerType := Trigger429, cb_retryAfterSec := parseRetryAfter h\<rparr>"
    by (simp add: Trip_enabled parseRetryAfter_pos)
next
  fix doRequest' mcpMethod'
  assume "ex_status (Execute config cb doRequest' now tripNow mcpMethod') \<noteq> 429"
  then show "ex_cb (Execute config cb doRequest' now tripNow mcpMethod')
               \<in> {cb1, Trip cb1 Trigger5xx 30 tripNow, Trip cb1 TriggerTimeout 30 tripNow}"
    using retryLoop_breaker [of doRequest' tripNow cb1] assms(1)
    by (simp add: Execute_def defaultRetryAfterSec_def)
qed

lemma sample_Atoi_5: "Atoi ''5'' = Some 5"
  by (simp add: Atoi_def isDigit_def digitsValue_def)

theorem rate_limit_trips_breaker_witness:
  "Execute sampleConfig (NewCircuitBreaker True)
     (\<lambda>i. if i = 0 then Responded 503 [] []
          else Responded 429 [(''Retry-After'', [''5''])] ''slow down'') 0 7 []
   = \<lparr>ex_status = 429, ex_headers = [(''Retry-After'', [''5''])], ex_body = ''slow down'',
      ex_err = None,
      ex_cb = \<lparr>cb_enabled = True, cb_closed = False, cb_openedAt = 7, cb_retryAfterSec = 5,
                cb_triggerType = Trigger429\<rparr>,
      ex_attempts = 2\<rparr>"
proof -
  have a: "Allow (NewCircuitBreaker True) 0 = (True, None, NewCircuitBreaker True)"
    by (simp add: Allow_def NewCircuitBreaker_def)
  have k: "1 < nat (maxAttempts sampleConfig [])"
    by (simp add: maxAttempts_def sampleConfig_def wrap64_def)
  have r: "\<forall>i<1. retried ((\<lambda>i::nat. if i = 0 then Responded 503 [] []
          else Responded 429 [(''Retry-After'', [''5''])] ''slow down'') i)"
    by (simp add: retried_def)
  have p: "parseRetryAfter [(''Retry-After'', [''5''])] = 5"
    by (simp add: parseRetryAfter_eq header_Get_def index_def sample_Atoi_5)
  from rate_limit_trips_breaker [OF a k r, of "[(''Retry-After'', [''5''])]" "''slow down''" 7]
  show ?thesis
    by (simp add: p Trip_def NewCircuitBreaker_def)
qed

section \<open>SSE final-message extraction\<close>

lemma TrimPrefix_data: "HasPrefix s ''data:'' \<Longrightarrow> TrimPrefix s ''data:'' = drop 5 s"
  by (simp add: TrimPrefix_def eval_nat_numeral)

lemma sseLine_eq:
  assumes "\<not> json_Valid L []"
  shows "sseLine L acc line =
           (case sseResponses L [line] of [] \<Rightarrow> acc | p # ps \<Rightarrow> Some p)"
  using assms
  by (auto simp: sseLine_def sseResponses_def ssePayloads_def TrimPrefix_data Let_def)

lemma sseResponses_append:
  "sseResponses L (xs @ ys) = sseResponses L xs @ sseResponses L ys"
  by (simp add: sseResponses_def ssePayloads_def)

lemma sseResponses_single: "length (sseResponses L [line]) \<le> 1"
  by (simp add: sseResponses_def ssePayloads_def)

lemma case_snoc_last:
  "(case xs @ [p] of [] \<Rightarrow> a | q # qs \<Rightarrow> Some (last (q # qs))) = Some p"
  by (cases xs) simp_all

lemma sse_loop:
  assumes "\<not> json_Valid L []"
  shows "foldl (sseLine L) None lines =
           (case sseResponses L lines of [] \<Rightarrow> None | p # ps \<Rightarrow> Some (last (p # ps)))"
proof (induction lines rule: rev_induct)
  case Nil
  show ?case by (simp add: sseResponses_def ssePayloads_def)
next
  case (snoc line lines)
  show ?case
  proof (cases "sseResponses L [line]")
    case Nil
    with snoc show ?thesis
      by (simp add: sseLine_eq [OF assms] sseResponses_append)
  next
    case (Cons p ps)
    with sseResponses_single [of L line] have ps: "ps = []" by simp
    with Cons show ?thesis
      by (simp add: sseLine_eq [OF assms] sseResponses_append case_snoc_last)
  qed
qed

text \<open>
  C6. For a JSON library that rejects the empty text and a trimming function that leaves
  the empty text empty, \<open>ParseSSEFinalMessage\<close> is the function the specification
  describes: the input itself when the content type does not begin with
  \<open>text/event-stream\<close> once trimmed and lowercased, and otherwise the last \<open>data:\<close> payload
  that is valid JSON with \<open>jsonrpc\<close> equal to \<open>2.0\<close> and a nonempty \<open>id\<close>, or the input when
  there is no such payload.
\<close>

theorem ParseSSEFinalMessage_spec:
  assumes "\<not> json_Valid L []" and "TrimSpace L [] = []"
  shows "ParseSSEFinalMessage L body contentType = sseFinalMessageSpec L body contentType"
proof (cases "body = []")
  case True
  have "sseResponses L [[]] = []"
    using assms(2) by (simp add: sseResponses_def ssePayloads_def HasPrefix_def)
  with True show ?thesis
    by (simp add: ParseSSEFinalMessage_def sseFinalMessageSpec_def isSSEContentType_def)
next
  case False
  then show ?thesis
    by (simp add: ParseSSEFinalMessage_def sseFinalMessageSpec_def isSSEContentType_def
          sse_loop [OF assms(1)] split: list.splits)
qed

lemma sampleLib_valid_empty: "\<not> json_Valid sampleLib []"
  by (simp add: sampleLib_def sampleNotification_def sampleResult_def)

lemma sampleLib_trim_empty: "TrimSpace sampleLib [] = []"
  by (simp add: sampleLib_def asciiTrimSpace_def)

lemma sample_spec_sse:
  "sseFinalMessageSpec sampleLib sampleStream '' Text/Event-Stream; charset=utf-8'' = sampleResult"
  by (simp add: sseFinalMessageSpec_def sseResponses_def ssePayloads_def sampleLib_def
        sampleStream_def sampleNotification_def sampleResult_def asciiTrimSpace_def
        isAsciiSpace_def HasPrefix_def ToLower_def isJsonRPCResponse_def len_raw_def)

theorem ParseSSEFinalMessage_spec_witness:
  "ParseSSEFinalMessage sampleLib sampleStream '' Text/Event-Stream; charset=utf-8''
     = sampleResult"
  using ParseSSEFinalMessage_spec [OF sampleLib_valid_empty sampleLib_trim_empty,
          of sampleStream "'' Text/Event-Stream; charset=utf-8''"]
  by (simp add: sample_spec_sse)

section \<open>Payload size enforcement\<close>

lemma TruncateBody_eq:
  "TruncateBody body n =
     (if 0 < n \<and> n < int (length body)
      then take (nat n) body @ ''... [truncated, '' @ Itoa (int (length body)) @ '' bytes]''
      else body)"
  by (simp add: TruncateBody_def)

lemma quo_half: "0 < n \<Longrightarrow> quo n 2 = n div 2"
  by (simp add: quo_def)

lemma payloadSizeEnforcement_eq:
  "payloadSizeEnforcement L conf req =
     (if 0 < MaxSidebandBodyBytes conf
         \<and> (case marshal_AccessRequest L req of
               None \<Rightarrow> False
             | Some payloadBytes \<Rightarrow> MaxSidebandBodyBytes conf < int (length payloadBytes))
         \<and> 0 < MaxSidebandBodyBytes conf div 2
         \<and> MaxSidebandBodyBytes conf div 2 < int (length (req_Body req))
      then req\<lparr>req_Body :=
                 take (nat (MaxSidebandBodyBytes conf div 2)) (req_Body req)
                   @ ''... [truncated, '' @ Itoa (int (length (req_Body req))) @ '' bytes]''\<rparr>
      else req)"
  by (simp add: payloadSizeEnforcement_def TruncateBody_eq quo_half split: option.splits)

lemma payloadSizeEnforcement_unlimited:
  "payloadSizeEnforcement L (conf\<lparr>MaxSidebandBodyBytes := 0\<rparr>) req = req"
  by (simp add: payloadSizeEnforcement_def)

lemma mcpEnrichment_limit:
  "mcpEnrichment L (conf\<lparr>MaxSidebandBodyBytes := n\<rparr>) rawBody headers req
     = mcpEnrichment L conf rawBody headers req"
  by (simp add: mcpEnrichment_def Let_def)

lemma composeAccessPayload_limit:
  "composeAccessPayload L kong conf =
     (case composeAccessPayload L kong (conf\<lparr>MaxSidebandBodyBytes := 0\<rparr>) of
        Inl err \<Rightarrow> Inl err
      | Inr req0 \<Rightarrow> Inr (payloadSizeEnforcement L conf req0))"
  by (simp add: composeAccessPayload_def orFail_def Let_def mcpEnrichment_limit
        payloadSizeEnforcement_unlimited split: sum.splits)

text \<open>
  C8 (as amended). Let \<open>req0\<close> be the payload composed without a size limit. With a limit
  \<open>max\<close> the composed payload is \<open>req0\<close> again, except that its body is cut to its first
  \<open>max/2\<close> bytes followed by the marker \<open>... [truncated, N bytes]\<close> (\<open>N\<close> the length of the
  original body) when all of this holds: \<open>max\<close> is positive, the payload serializes to
  more than \<open>max\<close> bytes, \<open>max/2\<close> is at least 1 and the body is longer than \<open>max/2\<close> bytes.
  No other field ever changes.
\<close>

theorem payload_size_enforcement:
  assumes "composeAccessPayload L kong (conf\<lparr>MaxSidebandBodyBytes := 0\<rparr>) = Inr req0"
  shows "composeAccessPayload L kong conf =
     Inr (if 0 < MaxSidebandBodyBytes conf
             \<and> (case marshal_AccessRequest L req0 of
                   None \<Rightarrow> False
                 | Some payloadBytes \<Rightarrow> MaxSidebandBodyBytes conf < int (length payloadBytes))
             \<and> 0 < MaxSidebandBodyBytes conf div 2
             \<and> MaxSidebandBodyBytes conf div 2 < int (length (req_Body req0))
          then req0\<lparr>req_Body :=
                 take (nat (MaxSidebandBodyBytes conf div 2)) (req_Body req0)
                   @ ''... [truncated, '' @ Itoa (int (length (req_Body req0))) @ '' bytes]''\<rparr>
          else req0)"
  using assms
  by (simp add: composeAccessPayload_limit [of L kong conf] payloadSizeEnforcement_eq)

lemma sample_compose:
  "composeAccessPayload sampleLib samplePdk (sampleConfig\<lparr>MaxSidebandBodyBytes := 0\<rparr>)
     = Inr sampleComposed"
  by (simp add: composeAccessPayload_def orFail_def samplePdk_def sampleConfig_def Let_def
        FormatHeaders_def ToLower_def mcpEnrichment_def ParseMCPRequest_def sampleLib_def
        payloadSizeEnforcement_def sampleComposed_def Itoa_eval)

lemma sample_marshal_size:
  "map_option length (marshal_AccessRequest sampleLib sampleComposed) = Some 174"
  by (simp add: sampleLib_def sampleMarshal_def sampleComposed_def sampleHeaders_def stringLiteral_def)

theorem payload_size_enforcement_witness:
  "composeAccessPayload sampleLib samplePdk (sampleConfig\<lparr>MaxSidebandBodyBytes := 8\<rparr>)
     = Inr (sampleComposed\<lparr>req_Body := ''hell... [truncated, 5 bytes]''\<rparr>)"
proof -
  have c: "composeAccessPayload sampleLib samplePdk
             (sampleConfig\<lparr>MaxSidebandBodyBytes := 8\<rparr>\<lparr>MaxSidebandBodyBytes := 0\<rparr>)
           = Inr sampleComposed"
    using sample_compose by simp
  have b: "req_Body sampleComposed = ''hello''" by (simp add: sampleComposed_def)
  obtain payloadBytes where m: "marshal_AccessRequest sampleLib sampleComposed = Some payloadBytes"
    and l: "length payloadBytes = 174"
    using sample_marshal_size by auto
  from payload_size_enforcement [OF c] show ?thesis
    by (simp add: b m l Itoa_eval)
qed

text \<open>
  The claim as stated fails when the payload is over the limit but the body is not longer
  than half the limit: with a limit of 100 bytes the sample payload serializes to 174
  bytes, and its 5-byte body is neither cut nor marked.
\<close>

theorem payload_size_enforcement_counterexample:
  "composeAccessPayload sampleLib samplePdk (sampleConfig\<lparr>MaxSidebandBodyBytes := 100\<rparr>)
     = Inr sampleComposed
   \<and> map_option length (marshal_AccessRequest sampleLib sampleComposed) = Some 174
   \<and> req_Body sampleComposed = ''hello''"
proof -
  have b: "req_Body sampleComposed = ''hello''" by (simp add: sampleComposed_def)
  have "payloadSizeEnforcement sampleLib (sampleConfig\<lparr>MaxSidebandBodyBytes := 100\<rparr>)
          sampleComposed = sampleComposed"
    by (simp add: payloadSizeEnforcement_eq b)
  then have "composeAccessPayload sampleLib samplePdk
          (sampleConfig\<lparr>MaxSidebandBodyBytes := 100\<rparr>) = Inr sampleComposed"
    using sample_compose
    by (simp add: composeAccessPayload_limit
          [of sampleLib samplePdk "sampleConfig\<lparr>MaxSidebandBodyBytes := 100\<rparr>"])
  with sample_marshal_size b show ?thesis by simp
qed

section \<open>JSON-RPC shaped denials\<close>

text \<open>The mapping from HTTP status to JSON-RPC error code, as the specification tabulates it.\<close>

lemma httpStatusToJsonRPCError_table:
  "httpStatusToJsonRPCError s =
     (if s = 404 then - 32601
      else if s = 429 \<or> s = 502 \<or> s = 503 then - 32000
      else if 400 \<le> s \<and> s < 500 then - 32600
      else - 32603)"
  by (simp add: httpStatusToJsonRPCError_def)

lemma appendCompact_plainToken:
  "plainToken s \<Longrightarrow> appendCompact inStr esc 0 s = s"
  by (induction s arbitrary: inStr esc) (simp_all add: plainToken_def htmlFree_def Let_def)

lemma appendCompact_plainContent:
  "plainContent s \<Longrightarrow> appendCompact True False 0 (s @ t) = s @ appendCompact True False 0 t"
  by (induction s) (simp_all add: plainContent_def htmlFree_def Let_def)

lemma appendCompact_stringLiteral:
  assumes "plainContent s"
  shows "appendCompact False False 0 (stringLiteral s) = stringLiteral s"
proof -
  have "appendCompact False False 0 (stringLiteral s)
          = CHR 0x22 # appendCompact True False 0 (s @ [CHR 0x22])"
    by (simp add: stringLiteral_def isJSONSpace_def Let_def)
  also have "\<dots> = CHR 0x22 # s @ appendCompact True False 0 [CHR 0x22]"
    by (simp add: appendCompact_plainContent [OF assms])
  also have "\<dots> = stringLiteral s"
    by (simp add: stringLiteral_def Let_def)
  finally show ?thesis .
qed

text \<open>
  C7 (as amended). On a deny decision for a request detected as MCP, with
  \<open>mcp_jsonrpc_errors\<close> enabled, the only call on the gateway is \<open>Exit\<close> with the deny
  status (403 when the code does not parse), the single header
  \<open>Content-Type: application/json\<close> (the provider's deny headers are dropped) and the
  JSON-RPC error body with the mapped code and the deny body as message. The id is
  written as the JSON encoder writes the stored raw id: \<open>null\<close> when absent, byte for
  byte when it is valid JSON in one of the two plain forms, compacted and HTML-escaped
  in general; if the stored id is not valid JSON the body is empty.
\<close>

theorem mcp_deny_response:
  assumes "resp_Response resp = Some deny"
    and "MCPJsonrpcErrors conf"
    and "req_MCP payload = Some mcpCtx"
  shows \<open>fst (handleAccessResponse L kong conf resp payload) =
           [Exit (case Atoi (deny_ResponseCode deny) of None \<Rightarrow> 403 | Some n \<Rightarrow> n)
              (case marshalRawMessage L (mcp_JsonrpcID mcpCtx) of
                 None \<Rightarrow> []
               | Some idBytes \<Rightarrow>
                   ''{"jsonrpc":"2.0","id":'' @ idBytes @ '',"error":{"code":''
                     @ Itoa (httpStatusToJsonRPCError
                               (case Atoi (deny_ResponseCode deny) of None \<Rightarrow> 403 | Some n \<Rightarrow> n))
                     @ '',"message":'' @ json_String L (deny_Body deny) @ ''}}'')
              [(''Content-Type'', [''application/json''])]]
       \<and> (mcp_JsonrpcID mcpCtx = None \<longrightarrow>
             marshalRawMessage L (mcp_JsonrpcID mcpCtx) = Some ''null'')
       \<and> (\<forall>raw. mcp_JsonrpcID mcpCtx = Some raw \<and> json_Valid L raw \<longrightarrow>
             marshalRawMessage L (mcp_JsonrpcID mcpCtx) = Some (appendCompact False False 0 raw)
             \<and> (plainToken raw \<longrightarrow> appendCompact False False 0 raw = raw)
             \<and> (\<forall>s. raw = stringLiteral s \<and> plainContent s \<longrightarrow>
                    appendCompact False False 0 raw = raw))
       \<and> (\<forall>raw. mcp_JsonrpcID mcpCtx = Some raw \<and> \<not> json_Valid L raw \<longrightarrow>
             marshalRawMessage L (mcp_JsonrpcID mcpCtx) = None)\<close>
proof (intro conjI allI impI)
  show \<open>fst (handleAccessResponse L kong conf resp payload) =
           [Exit (case Atoi (deny_ResponseCode deny) of None \<Rightarrow> 403 | Some n \<Rightarrow> n)
              (case marshalRawMessage L (mcp_JsonrpcID mcpCtx) of
                 None \<Rightarrow> []
               | Some idBytes \<Rightarrow>
                   ''{"jsonrpc":"2.0","id":'' @ idBytes @ '',"error":{"code":''
                     @ Itoa (httpStatusToJsonRPCError
                               (case Atoi (deny_ResponseCode deny) of None \<Rightarrow> 403 | Some n \<Rightarrow> n))
                     @ '',"message":'' @ json_String L (deny_Body deny) @ ''}}'')
              [(''Content-Type'', [''application/json''])]]\<close>
    using assms
    by (simp add: handleAccessResponse_def formatMCPDenyResponse_def Let_def
          split: option.splits)
next
  assume "mcp_JsonrpcID mcpCtx = None"
  then show "marshalRawMessage L (mcp_JsonrpcID mcpCtx) = Some ''null''"
    by (simp add: marshalRawMessage_def)
next
  fix raw assume "mcp_JsonrpcID mcpCtx = Some raw \<and> json_Valid L raw"
  then show "marshalRawMessage L (mcp_JsonrpcID mcpCtx) = Some (appendCompact False False 0 raw)"
    by (simp add: marshalRawMessage_def)
next
  fix raw assume "plainToken raw"
  then show "appendCompact False False 0 raw = raw"
    by (rule appendCompact_plainToken)
next
  fix raw s assume "raw = stringLiteral s \<and> plainContent s"
  then show "appendCompact False False 0 raw = raw"
    by (simp add: appendCompact_stringLiteral)
next
  fix raw assume "mcp_JsonrpcID mcpCtx = Some raw \<and> \<not> json_Valid L raw"
  then show "marshalRawMessage L (mcp_JsonrpcID mcpCtx) = None"
    by (simp add: marshalRawMessage_def)
qed

lemma sample_Atoi_403: "Atoi ''403'' = Some 403"
  by (simp add: Atoi_def isDigit_def digitsValue_def)

lemma sample_Itoa_code: "Itoa (httpStatusToJsonRPCError 403) = ''-32600''"
  by (simp add: httpStatusToJsonRPCError_def Itoa_eval)

theorem mcp_deny_response_witness:
  \<open>fst (handleAccessResponse sampleLib samplePdk sampleConfig sampleDeny sampleRequest) =
     [Exit 403 ''{"jsonrpc":"2.0","id":7,"error":{"code":-32600,"message":"denied"}}''
        [(''Content-Type'', [''application/json''])]]\<close>
proof -
  have d: "resp_Response sampleDeny =
             Some \<lparr>deny_ResponseCode = ''403'', deny_ResponseStatus = ''FORBIDDEN'',
                   deny_Body = ''denied'', deny_Headers = [[(''x-reason'', ''policy'')]]\<rparr>"
    by (simp add: sampleDeny_def)
  have c: "MCPJsonrpcErrors sampleConfig" by (simp add: sampleConfig_def)
  have m: "req_MCP sampleRequest = Some sampleMCP" by (simp add: sampleRequest_def)
  have i: "mcp_JsonrpcID sampleMCP = Some ''7''" by (simp add: sampleMCP_def)
  have v: "json_Valid sampleLib ''7''" by (simp add: sampleLib_def)
  have p: "plainToken ''7''" by (simp add: plainToken_def htmlFree_def isJSONSpace_def)
  have q: "json_String sampleLib ''denied'' = stringLiteral ''denied''"
    by (simp add: sampleLib_def stringLiteral_def)
  from mcp_deny_response [OF d c m, of sampleLib samplePdk] i v p
  have "marshalRawMessage sampleLib (Some ''7'') = Some ''7''" by simp
  with mcp_deny_response [OF d c m, of sampleLib samplePdk] show ?thesis
    by (simp add: i q sample_Atoi_403 sample_Itoa_code stringLiteral_def)
qed

text \<open>
  The claim as stated fails for a string id that contains \<open><\<close>: the id \<open>"a<b"\<close> parsed
  from the request comes back as \<open>"a\<close>, a backslash, \<open>u003cb"\<close>.
\<close>

theorem mcp_deny_response_counterexample:
  \<open>json_Valid sampleLib ''"a<b"''
   \<and> fst (handleAccessResponse sampleLib samplePdk sampleConfig sampleDeny
          (sampleRequest\<lparr>req_MCP := Some (sampleMCP\<lparr>mcp_JsonrpcID := Some ''"a<b"''\<rparr>)\<rparr>)) =
       [Exit 403
          (''{"jsonrpc":"2.0","id":"a'' @ [CHR 0x5C] @ ''u003cb","error":{"code":-32600,"message":"denied"}}'')
          [(''Content-Type'', [''application/json''])]]\<close>
  by (simp add: handleAccessResponse_def sampleDeny_def sampleConfig_def sampleRequest_def
        sampleMCP_def formatMCPDenyResponse_def marshalRawMessage_def sampleLib_def
        stringLiteral_def sample_Atoi_403 sample_Itoa_code isJSONSpace_def Let_def)

end
